theory Spec2Isabelle
  imports Complex_Main
begin

section \<open>Python values used by the crop price service\<close>

text \<open>
  A character is a Unicode code point below U+0100, so text is Latin-1 text; the catalog,
  the source names and every message of the service are such text. On it \<open>isspace\<close>,
  \<open>lower\<close>, \<open>strip\<close> and \<open>title\<close> are Python's \<open>str.isspace\<close>, \<open>str.lower\<close>,
  \<open>str.strip\<close> and \<open>str.title\<close>, with one exception: the title-case forms of U+00B5 and
  U+00FF lie above U+00FF, and \<open>totitle\<close> leaves these two characters as they are.
\<close>

definition isupper :: "char \<Rightarrow> bool" where
  "isupper c = (let n = (of_char c :: nat)
                in (65 \<le> n \<and> n \<le> 90) \<or> (192 \<le> n \<and> n \<le> 214) \<or> (216 \<le> n \<and> n \<le> 222))"

definition islower :: "char \<Rightarrow> bool" where
  "islower c = (let n = (of_char c :: nat)
                in (97 \<le> n \<and> n \<le> 122) \<or> n = 170 \<or> n = 181 \<or> n = 186 \<or>
                   (223 \<le> n \<and> n \<le> 246) \<or> (248 \<le> n \<and> n \<le> 255))"

text \<open>A cased character: after it \<open>str.title\<close> continues the word in lower case.\<close>

definition iscased :: "char \<Rightarrow> bool" where
  "iscased c = (isupper c \<or> islower c)"

definition isspace :: "char \<Rightarrow> bool" where
  "isspace c = (let n = (of_char c :: nat)
                in n = 32 \<or> (9 \<le> n \<and> n \<le> 13) \<or> (28 \<le> n \<and> n \<le> 31) \<or> n = 133 \<or> n = 160)"

definition tolower :: "char \<Rightarrow> char" where
  "tolower c = (if isupper c then char_of ((of_char c :: nat) + 32) else c)"

text \<open>The title-case form of a character; that of U+00DF is the two characters \<open>Ss\<close>.\<close>

definition totitle :: "char \<Rightarrow> string" where
  "totitle c = (let n = (of_char c :: nat)
                in if (97 \<le> n \<and> n \<le> 122) \<or> (224 \<le> n \<and> n \<le> 246) \<or> (248 \<le> n \<and> n \<le> 254)
                   then [char_of (n - 32)]
                   else if n = 223 then ''Ss''
                   else [c])"

definition lower :: "string \<Rightarrow> string" where
  "lower s = map tolower s"

definition strip :: "string \<Rightarrow> string" where
  "strip s = rev (dropWhile isspace (rev (dropWhile isspace s)))"

text \<open>
  \<open>str.title\<close>, as CPython computes it: a character after a cased one is put in lower
  case, any other in title case; the flag is \<open>previous_is_cased\<close>.
\<close>

fun title_from :: "bool \<Rightarrow> string \<Rightarrow> string" where
  "title_from prev [] = []"
| "title_from prev (c # cs) =
     (if prev then [tolower c] else totitle c) @ title_from (iscased c) cs"

definition title :: "string \<Rightarrow> string" where
  "title s = title_from False s"

text \<open>\<open>str(n)\<close> for a non-negative Python int.\<close>

function str_nat :: "nat \<Rightarrow> string" where
  "str_nat n = (if n < 10 then [char_of (48 + n)]
                else str_nat (n div 10) @ [char_of (48 + n mod 10)])"
  by pat_completeness auto
termination
  by (relation "measure (\<lambda>n. n)") auto

declare str_nat.simps [simp del]

text \<open>
  A Python float, as far as the comparisons of the validators see it: a finite value
  (compared as the real number it denotes), an infinity or NaN. \<open>fle a b\<close> is \<open>a <= b\<close>
  and \<open>flt a b\<close> is \<open>a < b\<close>; every comparison with NaN is false.
\<close>

datatype pyfloat = Finite real | PosInf | NegInf | NaN

fun fle :: "pyfloat \<Rightarrow> pyfloat \<Rightarrow> bool" where
  "fle NaN b = False"
| "fle a NaN = False"
| "fle NegInf b = True"
| "fle a PosInf = True"
| "fle (Finite x) (Finite y) = (x \<le> y)"
| "fle PosInf b = False"
| "fle (Finite x) NegInf = False"

fun flt :: "pyfloat \<Rightarrow> pyfloat \<Rightarrow> bool" where
  "flt NaN b = False"
| "flt a NaN = False"
| "flt PosInf b = False"
| "flt a NegInf = False"
| "flt (Finite x) (Finite y) = (x < y)"
| "flt NegInf b = True"
| "flt (Finite x) PosInf = True"

datatype date = Date nat nat nat

type_synonym datetime = nat

text \<open>
  The exception classes the handlers of the service tell apart, each carrying \<open>str(e)\<close>.
  \<open>ValidationError\<close> is pydantic's; \<open>OtherException\<close> is any further subclass of
  \<open>Exception\<close>.
\<close>

datatype exn =
    ValueError string
  | ValidationError string
  | CropPriceError string
  | DataSourceError string
  | NetworkError string
  | DataNotFoundError string
  | DataValidationError string
  | OtherException string

fun exn_str :: "exn \<Rightarrow> string" where
  "exn_str (ValueError m) = m"
| "exn_str (ValidationError m) = m"
| "exn_str (CropPriceError m) = m"
| "exn_str (DataSourceError m) = m"
| "exn_str (NetworkError m) = m"
| "exn_str (DataNotFoundError m) = m"
| "exn_str (DataValidationError m) = m"
| "exn_str (OtherException m) = m"

section \<open>models.py\<close>

text \<open>
  A keyword argument handed to a pydantic model: absent, present but rejected by the
  field's type, or present and coerced to a value of the field's type. Pydantic's own
  type coercion is the library's; the field order, the \<open>ge=0\<close> bounds and the validators
  are the repository's and are modelled below.
\<close>

datatype 'a arg = Missing | Invalid | Valid 'a

record CropPrice =
  crop_name :: string
  min_price :: pyfloat
  max_price :: pyfloat
  modal_price :: pyfloat
  market_name :: string
  district :: string
  state :: string
  price_date :: date
  unit :: string

record CropPrice_kwargs =
  kw_crop_name :: "string arg"
  kw_min_price :: "pyfloat arg"
  kw_max_price :: "pyfloat arg"
  kw_modal_price :: "pyfloat arg"
  kw_market_name :: "string arg"
  kw_district :: "string arg"
  kw_state :: "string arg"
  kw_price_date :: "date arg"
  kw_unit :: "string arg"

text \<open>A required field (\<open>Field(...)\<close>): validated value, or \<open>None\<close> for a field error.\<close>

fun required :: "'a arg \<Rightarrow> 'a option" where
  "required Missing = None"
| "required Invalid = None"
| "required (Valid v) = Some v"

text \<open>A field with a default.\<close>

fun with_default :: "'a \<Rightarrow> 'a arg \<Rightarrow> 'a option" where
  "with_default d Missing = Some d"
| "with_default d Invalid = None"
| "with_default d (Valid v) = Some v"

text \<open>\<open>Field(..., ge=0)\<close> on a float: the value passes when \<open>v >= 0\<close> is true.\<close>

fun ge0 :: "pyfloat option \<Rightarrow> pyfloat option" where
  "ge0 None = None"
| "ge0 (Some v) = (if fle (Finite 0) v then Some v else None)"

text \<open>
  \<open>validate_max_price(v, info)\<close>: \<open>info.data\<close> holds the fields validated so far, so
  \<open>"min_price" in info.data\<close> is \<open>vmin \<noteq> None\<close>. \<open>None\<close> as result is the raised
  \<open>ValueError\<close>, which pydantic records as an error of the field.
\<close>

definition validate_max_price :: "pyfloat \<Rightarrow> pyfloat option \<Rightarrow> pyfloat option" where
  "validate_max_price v vmin =
     (case vmin of
        Some m \<Rightarrow> if flt v m then None else Some v
      | None \<Rightarrow> Some v)"

definition validate_modal_price ::
  "pyfloat \<Rightarrow> pyfloat option \<Rightarrow> pyfloat option \<Rightarrow> pyfloat option" where
  "validate_modal_price v vmin vmax =
     (case (vmin, vmax) of
        (Some min_p, Some max_p) \<Rightarrow>
          if \<not> (fle min_p v \<and> fle v max_p) then None else Some v
      | _ \<Rightarrow> Some v)"

text \<open>
  \<open>CropPrice(**kwargs)\<close>: the fields are validated in declaration order, a field
  validator runs after its field's own validation succeeded, and the record is built
  only when no field failed.
\<close>

definition CropPrice_init :: "CropPrice_kwargs \<Rightarrow> exn + CropPrice" where
  "CropPrice_init kw =
     (let v_crop = required (kw_crop_name kw);
          v_min = ge0 (required (kw_min_price kw));
          v_max = (case ge0 (required (kw_max_price kw)) of
                     None \<Rightarrow> None
                   | Some v \<Rightarrow> validate_max_price v v_min);
          v_modal = (case ge0 (required (kw_modal_price kw)) of
                       None \<Rightarrow> None
                     | Some v \<Rightarrow> validate_modal_price v v_min v_max);
          v_market = required (kw_market_name kw);
          v_district = required (kw_district kw);
          v_state = required (kw_state kw);
          v_date = required (kw_price_date kw);
          v_unit = with_default ''Quintal'' (kw_unit kw)
      in case (v_crop, v_min, v_max, v_modal, v_market, v_district, v_state, v_date, v_unit) of
           (Some c, Some mn, Some mx, Some md, Some mk, Some d, Some s, Some pd, Some u) \<Rightarrow>
             Inr \<lparr>crop_name = c, min_price = mn, max_price = mx, modal_price = md,
                  market_name = mk, district = d, state = s, price_date = pd, unit = u\<rparr>
         | _ \<Rightarrow> Inl (ValidationError ''validation error for CropPrice''))"

record PriceResponse =
  success :: bool
  data :: "CropPrice list"
  count :: int
  resp_state :: string
  resp_district :: "string option"
  resp_crop_name :: "string option"
  fetched_at :: datetime
  message :: "string option"

record PriceResponse_kwargs =
  kw_success :: "bool arg"
  kw_data :: "CropPrice list arg"
  kw_count :: "int arg"
  kw_resp_state :: "string arg"
  kw_resp_district :: "string option arg"
  kw_resp_crop_name :: "string option arg"
  kw_fetched_at :: "datetime arg"
  kw_message :: "string option arg"

text \<open>
  \<open>set_count(v, info)\<close>, a \<open>mode="before"\<close> validator: it receives the argument as
  passed and its result is then validated as an \<open>int\<close>. \<open>"data" in info.data\<close> is
  \<open>vdata \<noteq> None\<close>.
\<close>

definition set_count :: "int arg \<Rightarrow> CropPrice list option \<Rightarrow> int arg" where
  "set_count v vdata =
     (case vdata of
        Some d \<Rightarrow> Valid (int (length d))
      | None \<Rightarrow> v)"

text \<open>
  \<open>PriceResponse(**kwargs)\<close>; \<open>tnow\<close> is what \<open>datetime.now\<close> returns for the default of
  \<open>fetched_at\<close>. A validator does not run for a required field that is absent.
\<close>

definition PriceResponse_init :: "datetime \<Rightarrow> PriceResponse_kwargs \<Rightarrow> exn + PriceResponse" where
  "PriceResponse_init tnow kw =
     (let v_success = required (kw_success kw);
          v_data = with_default [] (kw_data kw);
          v_count = (if kw_count kw = Missing then None
                     else required (set_count (kw_count kw) v_data));
          v_state = required (kw_resp_state kw);
          v_district = with_default None (kw_resp_district kw);
          v_crop = with_default None (kw_resp_crop_name kw);
          v_fetched = with_default tnow (kw_fetched_at kw);
          v_message = with_default None (kw_message kw)
      in case (v_success, v_data, v_count, v_state, v_district, v_crop, v_fetched, v_message) of
           (Some s, Some d, Some c, Some st, Some di, Some cr, Some f, Some m) \<Rightarrow>
             Inr \<lparr>success = s, data = d, count = c, resp_state = st, resp_district = di,
                  resp_crop_name = cr, fetched_at = f, message = m\<rparr>
         | _ \<Rightarrow> Inl (ValidationError ''validation error for PriceResponse''))"

section \<open>mock\_data\_provider.py\<close>

record crop_data =
  c_crop_name :: string
  c_min_price :: pyfloat
  c_max_price :: pyfloat
  c_modal_price :: pyfloat
  c_market_name :: string
  c_district :: string
  c_state :: string

definition all_crops :: "crop_data list" where
  "all_crops =
    [\<lparr>c_crop_name = ''Wheat'', c_min_price = Finite 2100, c_max_price = Finite 2300,
      c_modal_price = Finite 2200, c_market_name = ''Azadpur Mandi'',
      c_district = ''North Delhi'', c_state = ''Delhi''\<rparr>,
     \<lparr>c_crop_name = ''Rice'', c_min_price = Finite 1800, c_max_price = Finite 2000,
      c_modal_price = Finite 1900, c_market_name = ''Azadpur Mandi'',
      c_district = ''North Delhi'', c_state = ''Delhi''\<rparr>,
     \<lparr>c_crop_name = ''Tomato'', c_min_price = Finite 1200, c_max_price = Finite 1500,
      c_modal_price = Finite 1350, c_market_name = ''Azadpur Mandi'',
      c_district = ''North Delhi'', c_state = ''Delhi''\<rparr>,
     \<lparr>c_crop_name = ''Potato'', c_min_price = Finite 800, c_max_price = Finite 1000,
      c_modal_price = Finite 900, c_market_name = ''Azadpur Mandi'',
      c_district = ''North Delhi'', c_state = ''Delhi''\<rparr>,
     \<lparr>c_crop_name = ''Onion'', c_min_price = Finite 1500, c_max_price = Finite 1800,
      c_modal_price = Finite 1650, c_market_name = ''Azadpur Mandi'',
      c_district = ''North Delhi'', c_state = ''Delhi''\<rparr>,
     \<lparr>c_crop_name = ''Wheat'', c_min_price = Finite 2050, c_max_price = Finite 2250,
      c_modal_price = Finite 2150, c_market_name = ''Khanna Mandi'',
      c_district = ''Ludhiana'', c_state = ''Punjab''\<rparr>,
     \<lparr>c_crop_name = ''Rice'', c_min_price = Finite 1750, c_max_price = Finite 1950,
      c_modal_price = Finite 1850, c_market_name = ''Khanna Mandi'',
      c_district = ''Ludhiana'', c_state = ''Punjab''\<rparr>,
     \<lparr>c_crop_name = ''Cotton'', c_min_price = Finite 5500, c_max_price = Finite 6000,
      c_modal_price = Finite 5750, c_market_name = ''Yavatmal Mandi'',
      c_district = ''Yavatmal'', c_state = ''Maharashtra''\<rparr>,
     \<lparr>c_crop_name = ''Sugarcane'', c_min_price = Finite 280, c_max_price = Finite 320,
      c_modal_price = Finite 300, c_market_name = ''Kolhapur Mandi'',
      c_district = ''Kolhapur'', c_state = ''Maharashtra''\<rparr>,
     \<lparr>c_crop_name = ''Turmeric'', c_min_price = Finite 12000, c_max_price = Finite 14000,
      c_modal_price = Finite 13000, c_market_name = ''Erode Mandi'',
      c_district = ''Erode'', c_state = ''Tamil Nadu''\<rparr>]"

text \<open>\<open>if district:\<close> on an \<open>Optional[str]\<close>: neither \<open>None\<close> nor the empty string.\<close>

fun truthy :: "string option \<Rightarrow> bool" where
  "truthy None = False"
| "truthy (Some s) = (s \<noteq> [])"

text \<open>The keyword arguments of the \<open>CropPrice(...)\<close> call in the conversion loop.\<close>

definition mock_kwargs :: "date \<Rightarrow> crop_data \<Rightarrow> CropPrice_kwargs" where
  "mock_kwargs pd c =
     \<lparr>kw_crop_name = Valid (c_crop_name c), kw_min_price = Valid (c_min_price c),
      kw_max_price = Valid (c_max_price c), kw_modal_price = Valid (c_modal_price c),
      kw_market_name = Valid (c_market_name c), kw_district = Valid (c_district c),
      kw_state = Valid (c_state c), kw_price_date = Valid pd, kw_unit = Missing\<rparr>"

text \<open>The loop \<open>for crop_data in filtered: prices.append(CropPrice(...))\<close>.\<close>

fun build_prices :: "date \<Rightarrow> crop_data list \<Rightarrow> CropPrice list \<Rightarrow> exn + CropPrice list" where
  "build_prices pd [] acc = Inr acc"
| "build_prices pd (c # cs) acc =
     (case CropPrice_init (mock_kwargs pd c) of
        Inl err \<Rightarrow> Inl err
      | Inr p \<Rightarrow> build_prices pd cs (acc @ [p]))"

text \<open>\<open>get_mock_prices\<close>; \<open>tday\<close> is what \<open>date.today()\<close> returns.\<close>

definition get_mock_prices ::
  "date \<Rightarrow> string \<Rightarrow> string option \<Rightarrow> string option \<Rightarrow> date option \<Rightarrow> exn + CropPrice list" where
  "get_mock_prices tday st distr crop pdate =
     (let pd = (case pdate of None \<Rightarrow> tday | Some d \<Rightarrow> d);
          filtered = filter (\<lambda>c. lower (c_state c) = lower st) all_crops;
          filtered = (case distr of
                        Some d \<Rightarrow> if d \<noteq> [] then filter (\<lambda>c. lower (c_district c) = lower d) filtered
                                  else filtered
                      | None \<Rightarrow> filtered);
          filtered = (case crop of
                        Some n \<Rightarrow> if n \<noteq> [] then filter (\<lambda>c. lower (c_crop_name c) = lower n) filtered
                                  else filtered
                      | None \<Rightarrow> filtered)
      in build_prices pd filtered [])"

section \<open>crop\_price\_fetcher.py\<close>

text \<open>
  The module constants \<open>MAX_RETRIES\<close> (3) and \<open>RETRY_DELAY\<close> (2) and the imported
  \<open>DEV_MODE\<close> flag are taken as a configuration, with the module's values as default.
\<close>

record config =
  MAX_RETRIES :: nat
  RETRY_DELAY :: nat
  DEV_MODE :: bool

definition default_config :: config where
  "default_config = \<lparr>MAX_RETRIES = 3, RETRY_DELAY = 2, DEV_MODE = False\<rparr>"

datatype source = Agmarknet | Enam

text \<open>What awaiting a source adapter gives: a list of records or a raised exception.\<close>

datatype outcome = Returns "CropPrice list" | Raises exn

text \<open>
  The effects of one call of the orchestrator, in order: a request to a source adapter,
  \<open>asyncio.sleep\<close> of so many seconds, a call of the mock provider.
\<close>

datatype event = Fetch source | Sleep nat | MockCall

text \<open>
  The surroundings of one call: the clock and the behaviour of the two adapters, where
  \<open>adapter e s k\<close> is the outcome of request number \<open>k\<close> (from 0) to source \<open>s\<close> during
  the call. Every request of one call passes the same state, district, crop and date, so
  the request number is all an outcome depends on. Log records are not modelled.
\<close>

record env =
  today :: date
  now :: datetime
  adapter :: "source \<Rightarrow> nat \<Rightarrow> outcome"

text \<open>
  The two adapters of the repository, as functions of what the HTTP request does: a
  response with a status code, an \<open>aiohttp.ClientError\<close>, or any other exception.
\<close>

datatype http_reply = Status nat | ClientError string | Failure string

definition fetch_agmarknet_prices :: "http_reply \<Rightarrow> outcome" where
  "fetch_agmarknet_prices r =
     (case r of
        Status code \<Rightarrow>
          if code \<noteq> 200
          then Raises (NetworkError (''Failed to fetch AGMARKNET page: HTTP '' @ str_nat code))
          else Raises (DataSourceError (''[agmarknet] AGMARKNET form submission not fully implemented. ''
                  @ ''Use alternative data source or implement form handling.''))
      | ClientError m \<Rightarrow> Raises (NetworkError (''Network error while fetching from AGMARKNET: '' @ m))
      | Failure m \<Rightarrow>
          Raises (DataSourceError (''[agmarknet] Unexpected error fetching from AGMARKNET: '' @ m)))"

definition fetch_enam_prices :: "http_reply \<Rightarrow> outcome" where
  "fetch_enam_prices r =
     (case r of
        Status code \<Rightarrow>
          if code \<noteq> 200
          then Raises (NetworkError (''Failed to fetch e-NAM page: HTTP '' @ str_nat code))
          else Raises (DataSourceError (''[enam] e-NAM API integration not fully implemented. ''
                  @ ''Use alternative data source or implement API authentication.''))
      | ClientError m \<Rightarrow> Raises (NetworkError (''Network error while fetching from e-NAM: '' @ m))
      | Failure m \<Rightarrow> Raises (DataSourceError (''[enam] Unexpected error fetching from e-NAM: '' @ m)))"

definition stub_adapter :: "(source \<Rightarrow> nat \<Rightarrow> http_reply) \<Rightarrow> source \<Rightarrow> nat \<Rightarrow> outcome" where
  "stub_adapter http s k =
     (case s of
        Agmarknet \<Rightarrow> fetch_agmarknet_prices (http s k)
      | Enam \<Rightarrow> fetch_enam_prices (http s k))"

text \<open>Awaiting an adapter: the request is appended to the trace.\<close>

definition fetch :: "env \<Rightarrow> source \<Rightarrow> event list \<Rightarrow> outcome \<times> event list" where
  "fetch e s tr = (adapter e s (count_list tr (Fetch s)), tr @ [Fetch s])"

record request =
  q_state :: string
  q_district :: "string option"
  q_crop_name :: "string option"
  q_price_date :: "date option"
  data_source :: string
  use_mock_fallback :: bool
  use_mock_only :: "bool option"

text \<open>\<open>if district: district = district.strip().title()\<close>.\<close>

fun normalize_opt :: "string option \<Rightarrow> string option" where
  "normalize_opt None = None"
| "normalize_opt (Some s) = (if s \<noteq> [] then Some (title (strip s)) else Some s)"

text \<open>The \<open>if\<close>/\<open>elif\<close> on \<open>data_source.lower()\<close>; \<open>None\<close> is the \<open>else\<close> branch.\<close>

definition select_source :: "string \<Rightarrow> source option" where
  "select_source ds =
     (if lower ds = ''agmarknet'' then Some Agmarknet
      else if lower ds = ''enam'' then Some Enam
      else None)"

text \<open>\<open>except (NetworkError, DataSourceError)\<close>.\<close>

fun retryable :: "exn \<Rightarrow> bool" where
  "retryable (NetworkError m) = True"
| "retryable (DataSourceError m) = True"
| "retryable e = False"

record loop_state =
  prices :: "CropPrice list"
  last_error :: "exn option"
  trace :: "event list"

text \<open>
  The loop \<open>for attempt in range(MAX_RETRIES)\<close> over the remaining attempt numbers.
  The first component is \<open>Some\<close> of the \<open>CropPriceError\<close> raised by the last handler,
  which leaves the loop and the function.
\<close>

fun retry_primary :: "config \<Rightarrow> env \<Rightarrow> string \<Rightarrow> nat list \<Rightarrow> loop_state \<Rightarrow> exn option \<times> loop_state" where
  "retry_primary cfg e ds [] ls = (None, ls)"
| "retry_primary cfg e ds (attempt # rest) ls =
     (case select_source ds of
        None \<Rightarrow>
          (Some (CropPriceError (''Unexpected error fetching prices: ''
                   @ ''Unknown data source: '' @ ds)), ls)
      | Some src \<Rightarrow>
          (case fetch e src (trace ls) of
             (Returns ps, tr) \<Rightarrow>
               if ps \<noteq> [] then (None, ls\<lparr>prices := ps, trace := tr\<rparr>)
               else retry_primary cfg e ds rest (ls\<lparr>prices := ps, trace := tr\<rparr>)
           | (Raises err, tr) \<Rightarrow>
               if retryable err then
                 (if int attempt < int (MAX_RETRIES cfg) - 1
                  then retry_primary cfg e ds rest
                         (ls\<lparr>last_error := Some err,
                             trace := tr @ [Sleep (RETRY_DELAY cfg * (attempt + 1))]\<rparr>)
                  else retry_primary cfg e ds rest (ls\<lparr>last_error := Some err, trace := tr\<rparr>))
               else (Some (CropPriceError (''Unexpected error fetching prices: '' @ exn_str err)),
                     ls\<lparr>trace := tr\<rparr>)))"

declare retry_primary.simps(2) [simp del]

text \<open>The fallback source, tried once; its exception is logged only.\<close>

definition failover :: "env \<Rightarrow> string \<Rightarrow> loop_state \<Rightarrow> loop_state" where
  "failover e ds ls =
     (if prices ls = [] \<and> last_error ls \<noteq> None then
        (let fallback_source = (if lower ds = ''agmarknet'' then Enam else Agmarknet)
         in case fetch e fallback_source (trace ls) of
              (Returns ps, tr) \<Rightarrow> ls\<lparr>prices := ps, trace := tr\<rparr>
            | (Raises err, tr) \<Rightarrow> ls\<lparr>trace := tr\<rparr>)
      else ls)"

definition mock_fallback ::
  "env \<Rightarrow> bool \<Rightarrow> string \<Rightarrow> string option \<Rightarrow> string option \<Rightarrow> date option \<Rightarrow> loop_state \<Rightarrow> loop_state" where
  "mock_fallback e use_mock st distr crop pdate ls =
     (if prices ls = [] \<and> use_mock then
        (case get_mock_prices (today e) st distr crop pdate of
           Inr ps \<Rightarrow> ls\<lparr>prices := ps, trace := trace ls @ [MockCall]\<rparr>
         | Inl err \<Rightarrow> ls\<lparr>trace := trace ls @ [MockCall]\<rparr>)
      else ls)"

text \<open>The two list comprehensions that filter by district and crop.\<close>

definition post_filter :: "string option \<Rightarrow> string option \<Rightarrow> CropPrice list \<Rightarrow> CropPrice list" where
  "post_filter distr crop ps =
     (let ps = (case distr of
                  Some d \<Rightarrow> if d \<noteq> [] then filter (\<lambda>p. lower (district p) = lower d) ps else ps
                | None \<Rightarrow> ps);
          ps = (case crop of
                  Some n \<Rightarrow> if n \<noteq> [] then filter (\<lambda>p. lower (crop_name p) = lower n) ps else ps
                | None \<Rightarrow> ps)
      in ps)"

definition failure_message :: "string \<Rightarrow> string option \<Rightarrow> string option \<Rightarrow> exn option \<Rightarrow> string" where
  "failure_message st distr crop err =
     ''No price data found for state='' @ st
     @ (case distr of Some d \<Rightarrow> if d \<noteq> [] then '', district='' @ d else [] | None \<Rightarrow> [])
     @ (case crop of Some n \<Rightarrow> if n \<noteq> [] then '', crop='' @ n else [] | None \<Rightarrow> [])
     @ (case err of Some x \<Rightarrow> ''. Last error: '' @ exn_str x | None \<Rightarrow> [])"

definition response_kwargs ::
  "bool \<Rightarrow> CropPrice list \<Rightarrow> string \<Rightarrow> string option \<Rightarrow> string option \<Rightarrow> string \<Rightarrow> PriceResponse_kwargs" where
  "response_kwargs ok ps st distr crop msg =
     \<lparr>kw_success = Valid ok, kw_data = Valid ps, kw_count = Valid (int (length ps)),
      kw_resp_state = Valid st, kw_resp_district = Valid distr, kw_resp_crop_name = Valid crop,
      kw_fetched_at = Missing, kw_message = Valid (Some msg)\<rparr>"

text \<open>The branch \<open>if use_mock_only:\<close>, with its \<open>try\<close> around the provider and the response.\<close>

definition mock_only_path ::
  "env \<Rightarrow> string \<Rightarrow> string option \<Rightarrow> string option \<Rightarrow> date option \<Rightarrow> (exn + PriceResponse) \<times> event list" where
  "mock_only_path e st distr crop pdate =
     (let unavailable = PriceResponse_init (now e)
                          (response_kwargs False [] st distr crop ''Mock data provider unavailable'')
      in case get_mock_prices (today e) st distr crop pdate of
           Inl err \<Rightarrow> (unavailable, [MockCall])
         | Inr ps \<Rightarrow>
             if ps \<noteq> [] then
               (let ps = post_filter distr crop ps
                in case PriceResponse_init (now e)
                          (response_kwargs True ps st distr crop
                             (''Successfully fetched '' @ str_nat (length ps)
                              @ '' mock price entries (dev mode)'')) of
                     Inr r \<Rightarrow> (Inr r, [MockCall])
                   | Inl err \<Rightarrow> (unavailable, [MockCall]))
             else (unavailable, [MockCall]))"

text \<open>The locals \<open>prices\<close> and \<open>last_error\<close> before the loop, and no effect yet.\<close>

definition initial_state :: loop_state where
  "initial_state = \<lparr>prices = [], last_error = None, trace = []\<rparr>"

text \<open>The rest of the function: retries, fallback source, mock data, filter, response.\<close>

definition live_path ::
  "config \<Rightarrow> env \<Rightarrow> string \<Rightarrow> string option \<Rightarrow> string option \<Rightarrow> date option \<Rightarrow> string \<Rightarrow> bool
     \<Rightarrow> (exn + PriceResponse) \<times> event list" where
  "live_path cfg e st distr crop pdate ds use_mock =
     (case retry_primary cfg e ds [0..<MAX_RETRIES cfg] initial_state of
        (Some err, ls) \<Rightarrow> (Inl err, trace ls)
      | (None, ls) \<Rightarrow>
          (let ls = failover e ds ls;
               ls = mock_fallback e use_mock st distr crop pdate ls;
               ps = (if prices ls \<noteq> [] then post_filter distr crop (prices ls) else prices ls)
           in if ps = [] then
                (PriceResponse_init (now e)
                   (response_kwargs False [] st distr crop
                      (failure_message st distr crop (last_error ls))), trace ls)
              else
                (PriceResponse_init (now e)
                   (response_kwargs True ps st distr crop
                      (''Successfully fetched '' @ str_nat (length ps) @ '' price entries'')),
                 trace ls)))"

definition get_crop_prices :: "config \<Rightarrow> env \<Rightarrow> request \<Rightarrow> (exn + PriceResponse) \<times> event list" where
  "get_crop_prices cfg e rq =
     (if q_state rq = [] \<or> strip (q_state rq) = [] then
        (Inl (ValueError ''State parameter is required and cannot be empty''), [])
      else
        (let st = title (strip (q_state rq));
             distr = normalize_opt (q_district rq);
             crop = normalize_opt (q_crop_name rq);
             mock_only = (case use_mock_only rq of None \<Rightarrow> DEV_MODE cfg | Some b \<Rightarrow> b)
         in if mock_only then mock_only_path e st distr crop (q_price_date rq)
            else live_path cfg e st distr crop (q_price_date rq) (data_source rq)
                   (use_mock_fallback rq)))"

section \<open>Notions of the specification\<close>

text \<open>
  The conditions the specification gives for the raw input of a Price Record: every
  required field present and of its type, the optional \<open>unit\<close> of its type when
  present, the three prices non-negative, \<open>min_price \<le> max_price\<close> and
  \<open>min_price \<le> modal_price \<le> max_price\<close>.
\<close>

definition valid_input :: "CropPrice_kwargs \<Rightarrow> bool" where
  "valid_input kw =
     (\<exists>c mn mx md mk d s pd.
        kw_crop_name kw = Valid c \<and> kw_min_price kw = Valid mn \<and> kw_max_price kw = Valid mx \<and>
        kw_modal_price kw = Valid md \<and> kw_market_name kw = Valid mk \<and> kw_district kw = Valid d \<and>
        kw_state kw = Valid s \<and> kw_price_date kw = Valid pd \<and> kw_unit kw \<noteq> Invalid \<and>
        fle (Finite 0) mn \<and> fle (Finite 0) mx \<and> fle (Finite 0) md \<and>
        fle mn mx \<and> fle mn md \<and> fle md mx)"

text \<open>Sample inputs: the first catalog entry, and the same with the modal price above the maximum.\<close>

definition wheat_kwargs :: CropPrice_kwargs where
  "wheat_kwargs =
     \<lparr>kw_crop_name = Valid ''Wheat'', kw_min_price = Valid (Finite 2100),
      kw_max_price = Valid (Finite 2300), kw_modal_price = Valid (Finite 2200),
      kw_market_name = Valid ''Azadpur Mandi'', kw_district = Valid ''North Delhi'',
      kw_state = Valid ''Delhi'', kw_price_date = Valid (Date 2024 1 15), kw_unit = Missing\<rparr>"

definition wheat :: CropPrice where
  "wheat =
     \<lparr>crop_name = ''Wheat'', min_price = Finite 2100, max_price = Finite 2300,
      modal_price = Finite 2200, market_name = ''Azadpur Mandi'', district = ''North Delhi'',
      state = ''Delhi'', price_date = Date 2024 1 15, unit = ''Quintal''\<rparr>"

definition bad_modal_kwargs :: CropPrice_kwargs where
  "bad_modal_kwargs = wheat_kwargs\<lparr>kw_modal_price := Valid (Finite 2400)\<rparr>"

text \<open>
  The Price Record a catalog entry is materialized as, stamped with a date. Then the three
  list comprehensions of the provider as one predicate, with the comparisons as the code
  writes them (\<open>lower\<close> on both sides, a filter skipped when \<open>if district:\<close> is false).
\<close>

definition materialize :: "date \<Rightarrow> crop_data \<Rightarrow> CropPrice" where
  "materialize pd c =
     \<lparr>crop_name = c_crop_name c, min_price = c_min_price c, max_price = c_max_price c,
      modal_price = c_modal_price c, market_name = c_market_name c, district = c_district c,
      state = c_state c, price_date = pd, unit = ''Quintal''\<rparr>"

fun given_match :: "string option \<Rightarrow> string \<Rightarrow> bool" where
  "given_match None s = True"
| "given_match (Some d) s = (d = [] \<or> lower s = lower d)"

definition catalog_match :: "string \<Rightarrow> string option \<Rightarrow> string option \<Rightarrow> crop_data \<Rightarrow> bool" where
  "catalog_match st distr crop c =
     (lower (c_state c) = lower st \<and> given_match distr (c_district c) \<and>
      given_match crop (c_crop_name c))"

text \<open>
  Case-insensitive equality, as the specification means it and without reference to
  \<open>lower\<close>: two characters are the same letter when they are equal or one is a capital
  letter (A to Z, U+00C0 to U+00DE without U+00D7) and the other is the small letter 32
  code points above it; two texts are equal up to case when they have the same length
  and agree letter by letter. An optional filter accepts a text when it is not given or
  equals it up to case, and a catalog entry matches a query when its state equals the
  queried state up to case and both filters accept it.
\<close>

definition capital :: "nat \<Rightarrow> bool" where
  "capital n = ((65 \<le> n \<and> n \<le> 90) \<or> (192 \<le> n \<and> n \<le> 214) \<or> (216 \<le> n \<and> n \<le> 222))"

definition same_letter :: "char \<Rightarrow> char \<Rightarrow> bool" where
  "same_letter a b =
     (a = b \<or> (capital (of_char a) \<and> (of_char b :: nat) = of_char a + 32)
            \<or> (capital (of_char b) \<and> (of_char a :: nat) = of_char b + 32))"

definition caseless_eq :: "string \<Rightarrow> string \<Rightarrow> bool" where
  "caseless_eq s t = list_all2 same_letter s t"

fun filter_accepts :: "string option \<Rightarrow> string \<Rightarrow> bool" where
  "filter_accepts None s = True"
| "filter_accepts (Some d) s = (d = [] \<or> caseless_eq s d)"

definition entry_matches :: "string \<Rightarrow> string option \<Rightarrow> string option \<Rightarrow> crop_data \<Rightarrow> bool" where
  "entry_matches st distr crop c =
     (caseless_eq (c_state c) st \<and> filter_accepts distr (c_district c) \<and>
      filter_accepts crop (c_crop_name c))"

text \<open>The first entry of the catalog.\<close>

definition delhi_wheat :: crop_data where
  "delhi_wheat =
     \<lparr>c_crop_name = ''Wheat'', c_min_price = Finite 2100, c_max_price = Finite 2300,
      c_modal_price = Finite 2200, c_market_name = ''Azadpur Mandi'',
      c_district = ''North Delhi'', c_state = ''Delhi''\<rparr>"

text \<open>
  The whitespace characters of Python below U+0100, listed one by one: tab, line feed,
  vertical tab, form feed, carriage return, the four separators U+001C to U+001F, space,
  next line (U+0085) and no-break space (U+00A0).
\<close>

definition python_whitespace :: string where
  "python_whitespace =
     [CHR 0x09, CHR 0x0A, CHR 0x0B, CHR 0x0C, CHR 0x0D, CHR 0x1C, CHR 0x1D, CHR 0x1E, CHR 0x1F,
      CHR 0x20, CHR 0x85, CHR 0xA0]"

text \<open>
  A call is in mock-only mode, or in live mode, when its state passed the input check
  and \<open>use_mock_only\<close> (or \<open>DEV_MODE\<close> in its absence) is true, or false.
\<close>

definition mock_only_mode :: "config \<Rightarrow> request \<Rightarrow> bool" where
  "mock_only_mode cfg rq =
     (strip (q_state rq) \<noteq> [] \<and> (case use_mock_only rq of None \<Rightarrow> DEV_MODE cfg | Some b \<Rightarrow> b))"

definition live_mode :: "config \<Rightarrow> request \<Rightarrow> bool" where
  "live_mode cfg rq =
     (strip (q_state rq) \<noteq> [] \<and> \<not> (case use_mock_only rq of None \<Rightarrow> DEV_MODE cfg | Some b \<Rightarrow> b))"

text \<open>The other of the two sources.\<close>

fun other :: "source \<Rightarrow> source" where
  "other Agmarknet = Enam"
| "other Enam = Agmarknet"

text \<open>
  Sample surroundings and requests: both portals answer every request with HTTP 503;
  a live request for Delhi and a mock-only request for a state outside the catalog.
\<close>

definition down_env :: env where
  "down_env = \<lparr>today = Date 2024 1 15, now = 0, adapter = stub_adapter (\<lambda>s k. Status 503)\<rparr>"

definition delhi_request :: request where
  "delhi_request =
     \<lparr>q_state = ''Delhi'', q_district = None, q_crop_name = None, q_price_date = None,
      data_source = ''agmarknet'', use_mock_fallback = True, use_mock_only = Some False\<rparr>"

definition atlantis_request :: request where
  "atlantis_request =
     \<lparr>q_state = ''Atlantis'', q_district = None, q_crop_name = None, q_price_date = None,
      data_source = ''agmarknet'', use_mock_fallback = True, use_mock_only = Some True\<rparr>"

definition blank_request :: request where
  "blank_request = delhi_request\<lparr>q_state := ''   ''\<rparr>"

definition nbsp_request :: request where
  "nbsp_request = delhi_request\<lparr>q_state := [CHR 0xA0]\<rparr>"

definition unknown_source_request :: request where
  "unknown_source_request =
     \<lparr>q_state = ''Atlantis'', q_district = None, q_crop_name = None, q_price_date = None,
      data_source = ''foo'', use_mock_fallback = True, use_mock_only = Some False\<rparr>"

text \<open>
  The linear backoff schedule for \<open>n\<close> attempts at source \<open>p\<close> with base delay \<open>d\<close>:
  attempt number \<open>k\<close> (from 1), followed by a sleep of \<open>d * k\<close> seconds unless it is the
  last attempt; and the sleeps of a trace, in order.
\<close>

definition backoff_schedule :: "source \<Rightarrow> nat \<Rightarrow> nat \<Rightarrow> event list" where
  "backoff_schedule p d n =
     concat (map (\<lambda>a. if a + 1 < n then [Fetch p, Sleep (d * (a + 1))] else [Fetch p]) [0..<n])"

fun sleeps :: "event list \<Rightarrow> nat list" where
  "sleeps [] = []"
| "sleeps (Sleep s # es) = s # sleeps es"
| "sleeps (ev # es) = sleeps es"

text \<open>
  Further sample surroundings: the primary answers its second request with one record
  and every other request times out; the primary times out once and then returns empty
  lists, while the other source times out.
\<close>

definition recovering_env :: env where
  "recovering_env =
     \<lparr>today = Date 2024 1 15, now = 0,
      adapter = (\<lambda>s k. if s = Agmarknet \<and> k = 1 then Returns [wheat]
                       else Raises (NetworkError ''timeout''))\<rparr>"

definition flaky_env :: env where
  "flaky_env =
     \<lparr>today = Date 2024 1 15, now = 0,
      adapter = (\<lambda>s k. if s = Agmarknet \<and> 0 < k then Returns []
                       else Raises (NetworkError ''timeout''))\<rparr>"

text \<open>
  Surroundings in which both adapters return nothing, or always the one wheat record of
  North Delhi; a live request for a state outside the catalog, and one for another
  district of Delhi with the mock fallback switched off.
\<close>

definition empty_env :: env where
  "empty_env = \<lparr>today = Date 2024 1 15, now = 0, adapter = (\<lambda>s k. Returns [])\<rparr>"




text \<open>
  The locals after the loop when every request got HTTP 503, when the first request timed
  out and the next two returned nothing, and when every request returned nothing.
\<close>

definition down_state :: loop_state where
  "down_state =
     \<lparr>prices = [], last_error = Some (NetworkError ''Failed to fetch AGMARKNET page: HTTP 503''),
      trace = [Fetch Agmarknet, Sleep 2, Fetch Agmarknet, Sleep 4, Fetch Agmarknet]\<rparr>"

definition flaky_state :: loop_state where
  "flaky_state =
     \<lparr>prices = [], last_error = Some (NetworkError ''timeout''),
      trace = [Fetch Agmarknet, Sleep 2, Fetch Agmarknet, Fetch Agmarknet]\<rparr>"

definition empty_state :: loop_state where
  "empty_state =
     \<lparr>prices = [], last_error = None, trace = [Fetch Agmarknet, Fetch Agmarknet, Fetch Agmarknet]\<rparr>"

section \<open>Price Record validation\<close>

lemma flt_fle_False: "flt a b \<Longrightarrow> fle b a \<Longrightarrow> False"
  by (cases a; cases b) auto

lemma not_flt_iff_fle: "fle (Finite 0) a \<Longrightarrow> fle (Finite 0) b \<Longrightarrow> (\<not> flt a b) = fle b a"
  by (cases a; cases b) auto

lemma required_Some: "(required a = Some v) = (a = Valid v)"
  by (cases a) auto

lemma with_default_Some: "(with_default d a = Some v) = (a = Valid v \<or> (a = Missing \<and> v = d))"
  by (cases a) auto

lemma ge0_Some: "(ge0 x = Some v) = (x = Some v \<and> fle (Finite 0) v)"
  by (cases x) auto

text \<open>Construction succeeds with \<open>r\<close> exactly when the arguments are the fields of \<open>r\<close> and pass every check.\<close>

lemma CropPrice_init_Inr:
  "(CropPrice_init kw = Inr r) =
     (kw_crop_name kw = Valid (crop_name r) \<and> kw_min_price kw = Valid (min_price r) \<and>
      kw_max_price kw = Valid (max_price r) \<and> kw_modal_price kw = Valid (modal_price r) \<and>
      kw_market_name kw = Valid (market_name r) \<and> kw_district kw = Valid (district r) \<and>
      kw_state kw = Valid (state r) \<and> kw_price_date kw = Valid (price_date r) \<and>
      (kw_unit kw = Valid (unit r) \<or> kw_unit kw = Missing \<and> unit r = ''Quintal'') \<and>
      fle (Finite 0) (min_price r) \<and> fle (Finite 0) (max_price r) \<and>
      fle (Finite 0) (modal_price r) \<and> fle (min_price r) (max_price r) \<and>
      fle (min_price r) (modal_price r) \<and> fle (modal_price r) (max_price r) \<and>
      CropPrice.more r = ())"
  apply (cases r)
  apply (simp add: CropPrice_init_def Let_def validate_max_price_def validate_modal_price_def
      required_Some with_default_Some ge0_Some split: option.splits)
  apply (auto simp: required_Some with_default_Some ge0_Some not_flt_iff_fle dest: flt_fle_False)
  done

lemma CropPrice_init_Inl:
  "CropPrice_init kw = Inl x \<Longrightarrow> x = ValidationError ''validation error for CropPrice''"
  by (auto simp: CropPrice_init_def Let_def split: option.splits)

lemma valid_input_iff: "valid_input kw = (\<exists>r. CropPrice_init kw = Inr r)"
proof
  assume "valid_input kw"
  then obtain c mn mx md mk d s pd where h:
    "kw_crop_name kw = Valid c" "kw_min_price kw = Valid mn" "kw_max_price kw = Valid mx"
    "kw_modal_price kw = Valid md" "kw_market_name kw = Valid mk" "kw_district kw = Valid d"
    "kw_state kw = Valid s" "kw_price_date kw = Valid pd" "kw_unit kw \<noteq> Invalid"
    "fle (Finite 0) mn" "fle (Finite 0) mx" "fle (Finite 0) md"
    "fle mn mx" "fle mn md" "fle md mx"
    unfolding valid_input_def by blast
  let ?u = "case kw_unit kw of Valid u \<Rightarrow> u | _ \<Rightarrow> ''Quintal''"
  let ?r = "\<lparr>crop_name = c, min_price = mn, max_price = mx, modal_price = md,
             market_name = mk, district = d, state = s, price_date = pd, unit = ?u\<rparr>"
  from h have "CropPrice_init kw = Inr ?r"
    by (cases "kw_unit kw") (simp_all add: CropPrice_init_Inr)
  then show "\<exists>r. CropPrice_init kw = Inr r" ..
next
  assume "\<exists>r. CropPrice_init kw = Inr r"
  then obtain r where "CropPrice_init kw = Inr r" ..
  then show "valid_input kw"
    unfolding valid_input_def CropPrice_init_Inr by auto
qed

text \<open>
  Claim C3. Constructing a \<open>CropPrice\<close> is all-or-nothing: it succeeds exactly on the
  inputs in which every required field is present and typed, the three prices are
  non-negative, \<open>min_price \<le> max_price\<close> and \<open>min_price \<le> modal_price \<le> max_price\<close>;
  every other input fails with a validation error; and every constructed record has
  \<open>min_price \<le> modal_price \<le> max_price\<close>.
\<close>

theorem CropPrice_init_all_or_nothing:
  "((\<exists>r. CropPrice_init kw = Inr r) = valid_input kw) \<and>
   (\<not> valid_input kw \<longrightarrow> (\<exists>m. CropPrice_init kw = Inl (ValidationError m))) \<and>
   (\<forall>r. CropPrice_init kw = Inr r \<longrightarrow>
      fle (min_price r) (modal_price r) \<and> fle (modal_price r) (max_price r))"
proof (intro conjI allI impI)
  show "(\<exists>r. CropPrice_init kw = Inr r) = valid_input kw"
    by (simp add: valid_input_iff)
next
  assume "\<not> valid_input kw"
  then have "\<nexists>r. CropPrice_init kw = Inr r"
    by (simp add: valid_input_iff)
  then obtain x where "CropPrice_init kw = Inl x"
    by (cases "CropPrice_init kw") auto
  then show "\<exists>m. CropPrice_init kw = Inl (ValidationError m)"
    using CropPrice_init_Inl by blast
next
  fix r assume "CropPrice_init kw = Inr r"
  then show "fle (min_price r) (modal_price r)" "fle (modal_price r) (max_price r)"
    by (simp_all add: CropPrice_init_Inr)
qed

theorem CropPrice_init_all_or_nothing_witness:
  "CropPrice_init wheat_kwargs = Inr wheat \<and>
   fle (min_price wheat) (modal_price wheat) \<and> fle (modal_price wheat) (max_price wheat) \<and>
   \<not> valid_input bad_modal_kwargs \<and>
   (\<exists>m. CropPrice_init bad_modal_kwargs = Inl (ValidationError m))"
proof -
  have good: "CropPrice_init wheat_kwargs = Inr wheat"
    by (simp add: CropPrice_init_Inr wheat_kwargs_def wheat_def)
  have bad: "\<not> valid_input bad_modal_kwargs"
    by (simp add: valid_input_def bad_modal_kwargs_def wheat_kwargs_def)
  from CropPrice_init_all_or_nothing [of wheat_kwargs] good
  have "fle (min_price wheat) (modal_price wheat) \<and> fle (modal_price wheat) (max_price wheat)"
    by blast
  moreover from CropPrice_init_all_or_nothing [of bad_modal_kwargs] bad
  have "\<exists>m. CropPrice_init bad_modal_kwargs = Inl (ValidationError m)"
    by blast
  ultimately show ?thesis
    using good bad by blast
qed

section \<open>Price Response\<close>

text \<open>
  Claim C5. In every constructed \<open>PriceResponse\<close> the \<open>count\<close> field is the length of
  the \<open>data\<close> field, whatever \<open>count\<close> argument was passed.
\<close>

theorem PriceResponse_count_is_length:
  "PriceResponse_init tnow kw = Inr r \<Longrightarrow> count r = int (length (data r))"
  by (auto simp: PriceResponse_init_def Let_def set_count_def required_Some
           split: option.splits if_splits)

theorem PriceResponse_count_is_length_witness:
  "PriceResponse_init 0
     \<lparr>kw_success = Valid True, kw_data = Valid [wheat], kw_count = Valid 99,
      kw_resp_state = Valid ''Delhi'', kw_resp_district = Missing, kw_resp_crop_name = Missing,
      kw_fetched_at = Missing, kw_message = Missing\<rparr>
   = Inr \<lparr>success = True, data = [wheat], count = 1, resp_state = ''Delhi'',
          resp_district = None, resp_crop_name = None, fetched_at = 0, message = None\<rparr> \<and>
   count \<lparr>success = True, data = [wheat], count = 1, resp_state = ''Delhi'',
          resp_district = None, resp_crop_name = None, fetched_at = 0, message = None\<rparr>
   = int (length [wheat])"
proof -
  have c: "PriceResponse_init 0
     \<lparr>kw_success = Valid True, kw_data = Valid [wheat], kw_count = Valid 99,
      kw_resp_state = Valid ''Delhi'', kw_resp_district = Missing, kw_resp_crop_name = Missing,
      kw_fetched_at = Missing, kw_message = Missing\<rparr>
   = Inr \<lparr>success = True, data = [wheat], count = 1, resp_state = ''Delhi'',
          resp_district = None, resp_crop_name = None, fetched_at = 0, message = None\<rparr>"
    by (simp add: PriceResponse_init_def set_count_def)
  from PriceResponse_count_is_length [OF c] c show ?thesis
    by simp
qed

section \<open>The mock catalog\<close>

lemma all_crops_states:
  "set (map c_state all_crops) = {''Delhi'', ''Punjab'', ''Maharashtra'', ''Tamil Nadu''}"
  by (auto simp add: all_crops_def)

text \<open>
  Claim C7, as the code has it: the catalog has exactly 10 entries, and their states are
  exactly 4 distinct ones: Delhi, Punjab, Maharashtra and Tamil Nadu.
\<close>

theorem all_crops_ten_entries_four_states:
  "length all_crops = 10 \<and>
   set (map c_state all_crops) = {''Delhi'', ''Punjab'', ''Maharashtra'', ''Tamil Nadu''} \<and>
   card (set (map c_state all_crops)) = 4"
proof -
  have "length all_crops = 10"
    by (simp add: all_crops_def)
  moreover have "card (set (map c_state all_crops)) = 4"
    unfolding all_crops_states by simp
  ultimately show ?thesis
    using all_crops_states by blast
qed

text \<open>The claim as the specification words it (10 entries across 5 states) fails.\<close>

theorem all_crops_not_five_states:
  "\<not> (length all_crops = 10 \<and> card (set (map c_state all_crops)) = 5)"
proof -
  have "card (set (map c_state all_crops)) = 4"
    unfolding all_crops_states by simp
  then show ?thesis
    by simp
qed

section \<open>The mock data provider\<close>

lemma all_crops_valid:
  "c \<in> set all_crops \<Longrightarrow> CropPrice_init (mock_kwargs pd c) = Inr (materialize pd c)"
  by (auto simp: all_crops_def CropPrice_init_Inr mock_kwargs_def materialize_def)

lemma build_prices_valid:
  "set cs \<subseteq> set all_crops \<Longrightarrow> build_prices pd cs acc = Inr (acc @ map (materialize pd) cs)"
  by (induction cs arbitrary: acc) (simp_all add: all_crops_valid)

lemma filter_given:
  "(case d of Some x \<Rightarrow> if x \<noteq> [] then filter (\<lambda>c. lower (f c) = lower x) xs else xs | None \<Rightarrow> xs)
   = filter (\<lambda>c. given_match d (f c)) xs"
  by (cases d) auto

lemma three_filters:
  "filter (\<lambda>c. given_match crop (c_crop_name c))
     (filter (\<lambda>c. given_match distr (c_district c))
        (filter (\<lambda>c. lower (c_state c) = lower st) xs))
   = filter (catalog_match st distr crop) xs"
  by (induction xs) (auto simp: catalog_match_def)

lemma get_mock_prices_eq:
  "get_mock_prices tday st distr crop pdate =
     Inr (map (materialize (case pdate of None \<Rightarrow> tday | Some d \<Rightarrow> d))
            (filter (catalog_match st distr crop) all_crops))"
proof -
  have sub: "set (filter (catalog_match st distr crop) all_crops) \<subseteq> set all_crops"
    by auto
  have "get_mock_prices tday st distr crop pdate =
          build_prices (case pdate of None \<Rightarrow> tday | Some d \<Rightarrow> d)
            (filter (catalog_match st distr crop) all_crops) []"
    unfolding get_mock_prices_def Let_def filter_given three_filters ..
  also have "\<dots> = Inr ([] @ map (materialize (case pdate of None \<Rightarrow> tday | Some d \<Rightarrow> d))
            (filter (catalog_match st distr crop) all_crops))"
    using sub by (rule build_prices_valid)
  finally show ?thesis
    by simp
qed

text \<open>Equality after \<open>lower\<close> is equality up to case.\<close>

lemma capital_shift: "capital m \<Longrightarrow> \<not> capital (m + 32)"
  unfolding capital_def by arith

lemma isupper_capital: "isupper c = capital (of_char c)"
  by (simp add: isupper_def capital_def Let_def)

lemma of_char_tolower:
  "(of_char (tolower c) :: nat) = (if capital (of_char c) then of_char c + 32 else of_char c)"
proof (cases "capital (of_char c)")
  case True
  then have "(of_char c :: nat) + 32 < 256"
    unfolding capital_def by arith
  with True show ?thesis
    by (simp add: tolower_def isupper_capital)
next
  case False
  then show ?thesis
    by (simp add: tolower_def isupper_capital)
qed

lemma tolower_eq_iff: "(tolower a = tolower b) = same_letter a b"
proof -
  have "(tolower a = tolower b) = ((of_char (tolower a) :: nat) = of_char (tolower b))"
    by simp
  also have "\<dots> = same_letter a b"
  proof (cases "capital (of_char a)"; cases "capital (of_char b)")
    assume "capital (of_char a)" "capital (of_char b)"
    then show ?thesis
      using capital_shift [of "of_char a"] capital_shift [of "of_char b"]
      by (auto simp: of_char_tolower same_letter_def)
  next
    assume "capital (of_char a)" "\<not> capital (of_char b)"
    then show ?thesis
      by (auto simp: of_char_tolower same_letter_def)
  next
    assume "\<not> capital (of_char a)" "capital (of_char b)"
    then show ?thesis
      by (auto simp: of_char_tolower same_letter_def)
  next
    assume "\<not> capital (of_char a)" "\<not> capital (of_char b)"
    then show ?thesis
      by (auto simp: of_char_tolower same_letter_def)
  qed
  finally show ?thesis .
qed

lemma map_eq_iff_list_all2: "(map f xs = map f ys) = list_all2 (\<lambda>x y. f x = f y) xs ys"
proof (induction xs arbitrary: ys)
  case Nil
  show ?case by auto
next
  case (Cons x xs)
  then show ?case by (cases ys) auto
qed

lemma lower_eq_iff: "(lower s = lower t) = caseless_eq s t"
  by (simp add: lower_def caseless_eq_def map_eq_iff_list_all2 tolower_eq_iff)

lemma given_match_eq: "given_match d s = filter_accepts d s"
  by (cases d) (simp_all add: lower_eq_iff)

lemma catalog_match_eq: "catalog_match st distr crop = entry_matches st distr crop"
  by (rule ext) (simp add: catalog_match_def entry_matches_def lower_eq_iff given_match_eq)

text \<open>
  Claim C6. For every state, optional district, optional crop name and optional date, the
  mock provider returns, without error, exactly the catalog entries whose state equals
  the given one up to case and whose district and crop name equal the given ones up to
  case when these are given, in catalog order, each as a record stamped with the given
  date (the current date when none is given); when nothing matches it returns the empty
  list. So Delhi, North Delhi, Wheat yields the one wheat record of Delhi, in this and in
  any other spelling of upper and lower case; a state alone yields all its entries; a
  district of another state, or a state outside the catalog, yields nothing.
\<close>

theorem get_mock_prices_returns_matches:
  "get_mock_prices tday st distr crop pdate =
     Inr (map (materialize (case pdate of None \<Rightarrow> tday | Some d \<Rightarrow> d))
            (filter (entry_matches st distr crop) all_crops)) \<and>
   (\<forall>ps. get_mock_prices tday st distr crop pdate = Inr ps \<longrightarrow>
      (\<forall>p \<in> set ps. price_date p = (case pdate of None \<Rightarrow> tday | Some d \<Rightarrow> d))) \<and>
   (filter (entry_matches st distr crop) all_crops = [] \<longrightarrow>
      get_mock_prices tday st distr crop pdate = Inr []) \<and>
   get_mock_prices tday ''Delhi'' (Some ''North Delhi'') (Some ''Wheat'') pdate =
     Inr [materialize (case pdate of None \<Rightarrow> tday | Some d \<Rightarrow> d) delhi_wheat] \<and>
   get_mock_prices tday ''dELHI'' (Some ''NORTH delhi'') (Some ''wheat'') pdate =
     Inr [materialize (case pdate of None \<Rightarrow> tday | Some d \<Rightarrow> d) delhi_wheat] \<and>
   get_mock_prices tday ''PUNJAB'' None (Some []) pdate =
     Inr (map (materialize (case pdate of None \<Rightarrow> tday | Some d \<Rightarrow> d))
            (filter (\<lambda>c. c_state c = ''Punjab'') all_crops)) \<and>
   get_mock_prices tday ''Delhi'' (Some ''Ludhiana'') None pdate = Inr [] \<and>
   get_mock_prices tday ''Atlantis'' None None pdate = Inr []"
proof -
  have 1: "filter (entry_matches ''Delhi'' (Some ''North Delhi'') (Some ''Wheat'')) all_crops
             = [delhi_wheat]"
    by code_simp
  have 2: "filter (entry_matches ''dELHI'' (Some ''NORTH delhi'') (Some ''wheat'')) all_crops
             = [delhi_wheat]"
    by code_simp
  have 3: "filter (entry_matches ''PUNJAB'' None (Some [])) all_crops
             = filter (\<lambda>c. c_state c = ''Punjab'') all_crops"
    by code_simp
  have 4: "filter (entry_matches ''Delhi'' (Some ''Ludhiana'') None) all_crops = []"
    by code_simp
  have 5: "filter (entry_matches ''Atlantis'' None None) all_crops = []"
    by code_simp
  show ?thesis
    unfolding get_mock_prices_eq catalog_match_eq 1 2 3 4 5
    by (auto simp: materialize_def)
qed

theorem get_mock_prices_returns_matches_witness:
  "get_mock_prices (Date 2024 1 15) ''delhi'' (Some ''NORTH DELHI'') (Some ''wheat'') None
     = Inr [wheat] \<and>
   price_date wheat = Date 2024 1 15 \<and>
   filter (entry_matches ''Atlantis'' None None) all_crops = [] \<and>
   get_mock_prices (Date 2024 1 15) ''Atlantis'' None None None = Inr []"
proof -
  note delhi = get_mock_prices_returns_matches
    [of "Date 2024 1 15" "''delhi''" "Some ''NORTH DELHI''" "Some ''wheat''" None]
  have "map (materialize (Date 2024 1 15))
          (filter (entry_matches ''delhi'' (Some ''NORTH DELHI'') (Some ''wheat'')) all_crops)
        = [wheat]"
    by code_simp
  with delhi have a: "get_mock_prices (Date 2024 1 15) ''delhi'' (Some ''NORTH DELHI'')
                        (Some ''wheat'') None = Inr [wheat]"
    by simp
  from delhi a have b: "price_date wheat = Date 2024 1 15"
    by simp
  have c: "filter (entry_matches ''Atlantis'' None None) all_crops = []"
    by code_simp
  from get_mock_prices_returns_matches [of "Date 2024 1 15" "''Atlantis''" None None None] c
  have d: "get_mock_prices (Date 2024 1 15) ''Atlantis'' None None None = Inr []"
    by blast
  from a b c d show ?thesis
    by blast
qed

section \<open>The orchestrator: responses and mock-only mode\<close>

lemma strip_Nil: "strip [] = []"
  by (simp add: strip_def)

lemma PriceResponse_init_response_kwargs:
  "PriceResponse_init tnow (response_kwargs ok ps st distr crop msg) =
     Inr \<lparr>success = ok, data = ps, count = int (length ps), resp_state = st,
          resp_district = distr, resp_crop_name = crop, fetched_at = tnow, message = Some msg\<rparr>"
  by (simp add: PriceResponse_init_def response_kwargs_def set_count_def)

lemma post_filter_eq:
  "post_filter distr crop ps =
     filter (\<lambda>p. given_match crop (crop_name p)) (filter (\<lambda>p. given_match distr (district p)) ps)"
  unfolding post_filter_def Let_def filter_given ..

lemma post_filter_Nil: "post_filter distr crop [] = []"
  by (simp add: post_filter_eq)

text \<open>The provider has already filtered by district and crop: the second filter keeps all.\<close>

lemma post_filter_mock:
  assumes "get_mock_prices tday st distr crop pdate = Inr ps"
  shows "post_filter distr crop ps = ps"
proof -
  from assms have ps: "ps = map (materialize (case pdate of None \<Rightarrow> tday | Some d \<Rightarrow> d))
            (filter (catalog_match st distr crop) all_crops)"
    by (simp add: get_mock_prices_eq)
  have "\<forall>p \<in> set ps. given_match distr (district p) \<and> given_match crop (crop_name p)"
    unfolding ps by (auto simp: catalog_match_def materialize_def)
  then show ?thesis
    by (simp add: post_filter_eq)
qed

lemma mock_only_path_eq:
  assumes "get_mock_prices (today e) st distr crop pdate = Inr ps"
  shows "mock_only_path e st distr crop pdate =
     (Inr \<lparr>success = (ps \<noteq> []), data = ps, count = int (length ps), resp_state = st,
           resp_district = distr, resp_crop_name = crop, fetched_at = now e,
           message = Some (if ps \<noteq> [] then ''Successfully fetched '' @ str_nat (length ps)
                              @ '' mock price entries (dev mode)''
                           else ''Mock data provider unavailable'')\<rparr>, [MockCall])"
  using assms post_filter_mock [OF assms]
  by (simp add: mock_only_path_def Let_def PriceResponse_init_response_kwargs)

text \<open>
  Claim C8. In mock-only mode the call consults the mock provider and nothing else (no
  request to a source adapter, no sleep) and returns a response, not an exception; the
  response carries the post-filtered records, \<open>success\<close> is true exactly when these are
  non-empty, \<open>count\<close> is their number and the message is non-empty; for a state that no
  catalog entry has, \<open>success\<close> is false and \<open>count\<close> is 0.
\<close>

theorem mock_only_mode_response:
  assumes "mock_only_mode cfg rq"
  shows "\<exists>ps r.
     get_mock_prices (today e) (title (strip (q_state rq))) (normalize_opt (q_district rq))
        (normalize_opt (q_crop_name rq)) (q_price_date rq) = Inr ps \<and>
     get_crop_prices cfg e rq = (Inr r, [MockCall]) \<and>
     data r = post_filter (normalize_opt (q_district rq)) (normalize_opt (q_crop_name rq)) ps \<and>
     success r = (data r \<noteq> []) \<and>
     count r = int (length (data r)) \<and>
     message r \<noteq> None \<and> message r \<noteq> Some [] \<and>
     ((\<forall>c \<in> set all_crops. lower (c_state c) \<noteq> lower (title (strip (q_state rq)))) \<longrightarrow>
        \<not> success r \<and> count r = 0)"
proof -
  let ?st = "title (strip (q_state rq))"
  let ?d = "normalize_opt (q_district rq)"
  let ?c = "normalize_opt (q_crop_name rq)"
  obtain ps where ps: "get_mock_prices (today e) ?st ?d ?c (q_price_date rq) = Inr ps"
    by (simp add: get_mock_prices_eq)
  have absent: "(\<forall>c \<in> set all_crops. lower (c_state c) \<noteq> lower ?st) \<longrightarrow> ps = []"
    using ps by (auto simp: get_mock_prices_eq catalog_match_def filter_empty_conv)
  from assms have g: "get_crop_prices cfg e rq = mock_only_path e ?st ?d ?c (q_price_date rq)"
    by (auto simp: get_crop_prices_def mock_only_mode_def Let_def strip_Nil)
  show ?thesis
    apply (rule exI [of _ ps])
    apply (rule exI)
    apply (intro conjI)
           apply (rule ps)
          apply (simp only: g mock_only_path_eq [OF ps])
    using absent apply (simp_all add: post_filter_mock [OF ps])
    done
qed

theorem mock_only_mode_response_witness:
  "mock_only_mode default_config atlantis_request \<and>
   filter (\<lambda>c. lower (c_state c) = lower (title (strip (q_state atlantis_request)))) all_crops = [] \<and>
   get_crop_prices default_config down_env atlantis_request =
     (Inr \<lparr>success = False, data = [], count = 0, resp_state = ''Atlantis'',
           resp_district = None, resp_crop_name = None, fetched_at = 0,
           message = Some ''Mock data provider unavailable''\<rparr>, [MockCall])"
proof -
  have m: "mock_only_mode default_config atlantis_request"
    by code_simp
  have a: "\<forall>c \<in> set all_crops. lower (c_state c) \<noteq> lower (title (strip (q_state atlantis_request)))"
    by code_simp
  have st: "title (strip (q_state atlantis_request)) = ''Atlantis''"
    by code_simp
  have f: "resp_state r = ''Atlantis'' \<and> resp_district r = None \<and> resp_crop_name r = None \<and>
           fetched_at r = 0 \<and> message r = Some ''Mock data provider unavailable''"
    if "get_crop_prices default_config down_env atlantis_request = (Inr r, tr)" for r tr
  proof -
    have "get_crop_prices default_config down_env atlantis_request =
      (Inr \<lparr>success = False, data = [], count = 0, resp_state = ''Atlantis'',
           resp_district = None, resp_crop_name = None, fetched_at = 0,
           message = Some ''Mock data provider unavailable''\<rparr>, [MockCall])"
      by code_simp
    with that show ?thesis by auto
  qed
  from mock_only_mode_response [OF m, of down_env] a obtain ps r where
    r: "get_crop_prices default_config down_env atlantis_request = (Inr r, [MockCall])"
       "\<not> success r" "count r = 0" "data r = post_filter (normalize_opt (q_district atlantis_request))
           (normalize_opt (q_crop_name atlantis_request)) ps" "success r = (data r \<noteq> [])"
    by blast
  from r f [OF r(1)] have "r = \<lparr>success = False, data = [], count = 0, resp_state = ''Atlantis'',
           resp_district = None, resp_crop_name = None, fetched_at = 0,
           message = Some ''Mock data provider unavailable''\<rparr>"
    by (cases r) auto
  moreover have "filter (\<lambda>c. lower (c_state c) = lower (title (strip (q_state atlantis_request))))
                   all_crops = []"
    by code_simp
  ultimately show ?thesis
    using r(1) m by simp
qed

section \<open>The orchestrator: input check and control flow\<close>

text \<open>One iteration of the loop, by what the adapter does.\<close>

lemma retry_step_unknown:
  "select_source ds = None \<Longrightarrow>
   retry_primary cfg e ds (a # rest) ls =
     (Some (CropPriceError (''Unexpected error fetching prices: Unknown data source: '' @ ds)), ls)"
  by (simp add: retry_primary.simps(2))

lemma retry_step_nonempty:
  "select_source ds = Some p \<Longrightarrow> adapter e p (count_list (trace ls) (Fetch p)) = Returns ps \<Longrightarrow>
   ps \<noteq> [] \<Longrightarrow>
   retry_primary cfg e ds (a # rest) ls = (None, ls\<lparr>prices := ps, trace := trace ls @ [Fetch p]\<rparr>)"
  by (simp add: retry_primary.simps(2) fetch_def)

lemma retry_step_empty:
  "select_source ds = Some p \<Longrightarrow> adapter e p (count_list (trace ls) (Fetch p)) = Returns [] \<Longrightarrow>
   retry_primary cfg e ds (a # rest) ls =
     retry_primary cfg e ds rest (ls\<lparr>prices := [], trace := trace ls @ [Fetch p]\<rparr>)"
  by (simp add: retry_primary.simps(2) fetch_def)

lemma retry_step_raises:
  "select_source ds = Some p \<Longrightarrow> adapter e p (count_list (trace ls) (Fetch p)) = Raises err \<Longrightarrow>
   retryable err \<Longrightarrow>
   retry_primary cfg e ds (a # rest) ls =
     retry_primary cfg e ds rest
       (ls\<lparr>last_error := Some err,
           trace := trace ls @ Fetch p #
                      (if a + 1 < MAX_RETRIES cfg then [Sleep (RETRY_DELAY cfg * (a + 1))] else [])\<rparr>)"
  by (auto simp add: retry_primary.simps(2) fetch_def)

lemma retry_step_abort:
  "select_source ds = Some p \<Longrightarrow> adapter e p (count_list (trace ls) (Fetch p)) = Raises err \<Longrightarrow>
   \<not> retryable err \<Longrightarrow>
   retry_primary cfg e ds (a # rest) ls =
     (Some (CropPriceError (''Unexpected error fetching prices: '' @ exn_str err)),
      ls\<lparr>trace := trace ls @ [Fetch p]\<rparr>)"
  by (simp add: retry_primary.simps(2) fetch_def)

text \<open>What the loop can do at all: only requests to the primary and sleeps, and only a \<open>CropPriceError\<close>.\<close>

lemma retry_primary_general:
  assumes "select_source ds = Some p"
  shows "\<exists>ab ls' ext. retry_primary cfg e ds as ls = (ab, ls') \<and>
           trace ls' = trace ls @ ext \<and>
           (\<forall>ev \<in> set ext. ev = Fetch p \<or> (\<exists>s. ev = Sleep s)) \<and>
           (\<forall>x. ab = Some x \<longrightarrow> (\<exists>m. x = CropPriceError m))"
proof (induction as arbitrary: ls)
  case Nil
  show ?case by simp
next
  case (Cons a as)
  show ?case
  proof (cases "adapter e p (count_list (trace ls) (Fetch p))")
    case (Returns ps)
    show ?thesis
    proof (cases "ps = []")
      case True
      obtain ab ls' ext where
        "retry_primary cfg e ds as (ls\<lparr>prices := [], trace := trace ls @ [Fetch p]\<rparr>) = (ab, ls')"
        "trace ls' = trace (ls\<lparr>prices := [], trace := trace ls @ [Fetch p]\<rparr>) @ ext"
        "\<forall>ev \<in> set ext. ev = Fetch p \<or> (\<exists>s. ev = Sleep s)"
        "\<forall>x. ab = Some x \<longrightarrow> (\<exists>m. x = CropPriceError m)"
        using Cons.IH by blast
      then show ?thesis
        using assms Returns True
        by (intro exI [of _ ab] exI [of _ ls'] exI [of _ "Fetch p # ext"])
           (simp add: retry_step_empty)
    next
      case False
      then show ?thesis
        using assms Returns
        by (intro exI [of _ None] exI [of _ "ls\<lparr>prices := ps, trace := trace ls @ [Fetch p]\<rparr>"]
              exI [of _ "[Fetch p]"])
           (simp add: retry_step_nonempty)
    qed
  next
    case (Raises err)
    show ?thesis
    proof (cases "retryable err")
      case True
      let ?sl = "if a + 1 < MAX_RETRIES cfg then [Sleep (RETRY_DELAY cfg * (a + 1))] else []"
      let ?ls = "ls\<lparr>last_error := Some err, trace := trace ls @ Fetch p # ?sl\<rparr>"
      obtain ab ls' ext where
        "retry_primary cfg e ds as ?ls = (ab, ls')"
        "trace ls' = trace ?ls @ ext"
        "\<forall>ev \<in> set ext. ev = Fetch p \<or> (\<exists>s. ev = Sleep s)"
        "\<forall>x. ab = Some x \<longrightarrow> (\<exists>m. x = CropPriceError m)"
        using Cons.IH by blast
      then show ?thesis
        using assms Raises True
        by (intro exI [of _ ab] exI [of _ ls'] exI [of _ "Fetch p # ?sl @ ext"])
           (auto simp add: retry_step_raises)
    next
      case False
      then show ?thesis
        using assms Raises
        by (intro exI [of _ "Some (CropPriceError (''Unexpected error fetching prices: '' @ exn_str err))"]
              exI [of _ "ls\<lparr>trace := trace ls @ [Fetch p]\<rparr>"] exI [of _ "[Fetch p]"])
           (simp add: retry_step_abort)
    qed
  qed
qed


lemma retry_primary_abort_is_CropPriceError:
  "retry_primary cfg e ds as ls = (Some x, ls') \<Longrightarrow> \<exists>m. x = CropPriceError m"
proof (cases "select_source ds")
  case None
  assume r: "retry_primary cfg e ds as ls = (Some x, ls')"
  show ?thesis
  proof (cases as)
    case Nil
    with r show ?thesis by simp
  next
    case (Cons a rest)
    with r None show ?thesis by (auto simp add: retry_step_unknown)
  qed
next
  case (Some p)
  assume "retry_primary cfg e ds as ls = (Some x, ls')"
  with retry_primary_general [OF Some, of cfg e as ls] show ?thesis
    by auto
qed

lemma failover_last_error: "last_error (failover e ds ls) = last_error ls"
  by (simp add: failover_def Let_def fetch_def split: outcome.splits)

lemma mock_fallback_last_error:
  "last_error (mock_fallback e um st distr crop pdate ls) = last_error ls"
  by (simp add: mock_fallback_def split: sum.splits)

lemma live_path_abort:
  "retry_primary cfg e ds [0..<MAX_RETRIES cfg] initial_state = (Some err, ls) \<Longrightarrow>
   live_path cfg e st distr crop pdate ds um = (Inl err, trace ls)"
  by (simp add: live_path_def)

lemma live_path_done:
  assumes "retry_primary cfg e ds [0..<MAX_RETRIES cfg] initial_state = (None, ls)"
    and "fin = mock_fallback e um st distr crop pdate (failover e ds ls)"
    and "ps = post_filter distr crop (prices fin)"
  shows "live_path cfg e st distr crop pdate ds um =
     (Inr \<lparr>success = (ps \<noteq> []), data = ps, count = int (length ps), resp_state = st,
           resp_district = distr, resp_crop_name = crop, fetched_at = now e,
           message = Some (if ps = [] then failure_message st distr crop (last_error ls)
                           else ''Successfully fetched '' @ str_nat (length ps)
                                @ '' price entries'')\<rparr>, trace fin)"
proof -
  have p: "(if prices fin \<noteq> [] then post_filter distr crop (prices fin) else prices fin) = ps"
    using assms(3) by (simp add: post_filter_Nil)
  have le: "last_error fin = last_error ls"
    using assms(2) by (simp add: failover_last_error mock_fallback_last_error)
  show ?thesis
    unfolding live_path_def assms(1) prod.case option.case Let_def assms(2) [symmetric] p le
    by (simp add: PriceResponse_init_response_kwargs)
qed

lemma get_crop_prices_live:
  "live_mode cfg rq \<Longrightarrow>
   get_crop_prices cfg e rq =
     live_path cfg e (title (strip (q_state rq))) (normalize_opt (q_district rq))
       (normalize_opt (q_crop_name rq)) (q_price_date rq) (data_source rq) (use_mock_fallback rq)"
  by (auto simp: get_crop_prices_def live_mode_def Let_def strip_Nil)

lemma get_crop_prices_mock_only:
  "mock_only_mode cfg rq \<Longrightarrow>
   get_crop_prices cfg e rq =
     mock_only_path e (title (strip (q_state rq))) (normalize_opt (q_district rq))
       (normalize_opt (q_crop_name rq)) (q_price_date rq)"
  by (auto simp: get_crop_prices_def mock_only_mode_def Let_def strip_Nil)

lemma live_path_result:
  "(\<exists>r. fst (live_path cfg e st distr crop pdate ds um) = Inr r) \<or>
   (\<exists>m. fst (live_path cfg e st distr crop pdate ds um) = Inl (CropPriceError m))"
proof (cases "retry_primary cfg e ds [0..<MAX_RETRIES cfg] initial_state")
  case (Pair ab ls)
  show ?thesis
  proof (cases ab)
    case None
    with Pair live_path_done [of cfg e ds ls _ um st distr crop pdate] show ?thesis
      by simp
  next
    case (Some x)
    with Pair retry_primary_abort_is_CropPriceError [of cfg e ds _ initial_state x ls]
    show ?thesis
      by (auto simp: live_path_abort)
  qed
qed

lemma all_dropWhile_isspace:
  "(\<forall>c \<in> set (dropWhile isspace s). isspace c) = (\<forall>c \<in> set s. isspace c)"
proof
  assume h: "\<forall>c \<in> set (dropWhile isspace s). isspace c"
  have "dropWhile isspace s = []"
  proof (rule ccontr)
    assume n: "dropWhile isspace s \<noteq> []"
    then have "\<not> isspace (hd (dropWhile isspace s))"
      by (rule hd_dropWhile)
    moreover from n have "hd (dropWhile isspace s) \<in> set (dropWhile isspace s)"
      by simp
    ultimately show False
      using h by blast
  qed
  then show "\<forall>c \<in> set s. isspace c"
    by simp
next
  assume "\<forall>c \<in> set s. isspace c"
  then show "\<forall>c \<in> set (dropWhile isspace s). isspace c"
    by (auto dest: set_dropWhileD)
qed

lemma strip_empty_iff: "(strip s = []) = (\<forall>c \<in> set s. isspace c)"
proof -
  have "(strip s = []) = (\<forall>c \<in> set (dropWhile isspace s). isspace c)"
    by (simp add: strip_def)
  then show ?thesis
    by (simp only: all_dropWhile_isspace)
qed

lemma python_whitespace_codes:
  "(of_char ` set python_whitespace :: nat set) = {9, 10, 11, 12, 13, 28, 29, 30, 31, 32, 133, 160}"
  by (simp add: python_whitespace_def)

lemma isspace_iff: "isspace c = (c \<in> set python_whitespace)"
proof -
  have "(c \<in> set python_whitespace) = ((of_char c :: nat) \<in> of_char ` set python_whitespace)"
    by (auto simp: image_iff)
  also have "\<dots> = ((of_char c :: nat) \<in> {9, 10, 11, 12, 13, 28, 29, 30, 31, 32, 133, 160})"
    by (simp only: python_whitespace_codes)
  also have "\<dots> = isspace c"
    unfolding isspace_def Let_def insert_iff empty_iff by arith
  finally show ?thesis
    by simp
qed

lemma strip_blank_iff: "(strip s = []) = (set s \<subseteq> set python_whitespace)"
  by (auto simp: strip_empty_iff isspace_iff)

lemma mock_only_path_result: "\<exists>r. fst (mock_only_path e st distr crop pdate) = Inr r"
  by (simp add: mock_only_path_eq [OF get_mock_prices_eq])

lemma blank_state_result:
  "set (q_state rq) \<subseteq> set python_whitespace \<Longrightarrow>
   get_crop_prices cfg e rq =
     (Inl (ValueError ''State parameter is required and cannot be empty''), [])"
  by (simp add: get_crop_prices_def strip_blank_iff)

lemma other_state_result:
  assumes "\<not> set (q_state rq) \<subseteq> set python_whitespace"
  shows "(\<exists>r. fst (get_crop_prices cfg e rq) = Inr r) \<or>
         (\<exists>m. fst (get_crop_prices cfg e rq) = Inl (CropPriceError m))"
proof -
  from assms have "strip (q_state rq) \<noteq> []"
    by (simp add: strip_blank_iff)
  then have "mock_only_mode cfg rq \<or> live_mode cfg rq"
    by (auto simp: mock_only_mode_def live_mode_def)
  then show ?thesis
  proof
    assume "mock_only_mode cfg rq"
    then show ?thesis
      by (simp add: get_crop_prices_mock_only mock_only_path_result)
  next
    assume "live_mode cfg rq"
    then show ?thesis
      by (simp add: get_crop_prices_live live_path_result)
  qed
qed

text \<open>
  Claim C9. The call raises the input error (\<open>ValueError\<close>) exactly when the state is
  empty or consists of whitespace characters only; it then raises at once, before any
  request, sleep or mock call, and no response is built. For every other state the call
  ends in a response or in a \<open>CropPriceError\<close>, never in the input error. So the empty
  state, three spaces, a run of tab, line feed, carriage return and space, a no-break
  space, and a next-line character with a unit separator all raise, while a name with
  spaces around it and a single underscore do not.
\<close>

theorem blank_state_raises_ValueError:
  "((\<exists>m. fst (get_crop_prices cfg e rq) = Inl (ValueError m))
      = (set (q_state rq) \<subseteq> set python_whitespace)) \<and>
   (set (q_state rq) \<subseteq> set python_whitespace \<longrightarrow>
      get_crop_prices cfg e rq =
        (Inl (ValueError ''State parameter is required and cannot be empty''), [])) \<and>
   (\<not> set (q_state rq) \<subseteq> set python_whitespace \<longrightarrow>
      (\<exists>r. fst (get_crop_prices cfg e rq) = Inr r) \<or>
      (\<exists>m. fst (get_crop_prices cfg e rq) = Inl (CropPriceError m))) \<and>
   get_crop_prices cfg e (rq\<lparr>q_state := []\<rparr>) =
     (Inl (ValueError ''State parameter is required and cannot be empty''), []) \<and>
   get_crop_prices cfg e (rq\<lparr>q_state := ''   ''\<rparr>) =
     (Inl (ValueError ''State parameter is required and cannot be empty''), []) \<and>
   get_crop_prices cfg e (rq\<lparr>q_state := [CHR 0x09, CHR 0x0A, CHR 0x0D, CHR 0x20]\<rparr>) =
     (Inl (ValueError ''State parameter is required and cannot be empty''), []) \<and>
   get_crop_prices cfg e (rq\<lparr>q_state := [CHR 0xA0]\<rparr>) =
     (Inl (ValueError ''State parameter is required and cannot be empty''), []) \<and>
   get_crop_prices cfg e (rq\<lparr>q_state := [CHR 0x85, CHR 0x1F]\<rparr>) =
     (Inl (ValueError ''State parameter is required and cannot be empty''), []) \<and>
   (\<nexists>m. fst (get_crop_prices cfg e (rq\<lparr>q_state := '' Delhi ''\<rparr>)) = Inl (ValueError m)) \<and>
   (\<nexists>m. fst (get_crop_prices cfg e (rq\<lparr>q_state := ''_''\<rparr>)) = Inl (ValueError m))"
proof -
  have general: "((\<exists>m. fst (get_crop_prices cfg e q) = Inl (ValueError m))
      = (set (q_state q) \<subseteq> set python_whitespace))" for q
  proof (cases "set (q_state q) \<subseteq> set python_whitespace")
    case True
    with blank_state_result [OF True, of cfg e] show ?thesis
      by simp
  next
    case False
    with other_state_result [OF False, of cfg e] show ?thesis
      by auto
  qed
  have 1: "get_crop_prices cfg e (rq\<lparr>q_state := []\<rparr>) =
     (Inl (ValueError ''State parameter is required and cannot be empty''), [])"
    by (rule blank_state_result) simp
  have 2: "get_crop_prices cfg e (rq\<lparr>q_state := ''   ''\<rparr>) =
     (Inl (ValueError ''State parameter is required and cannot be empty''), [])"
    by (rule blank_state_result) (simp add: python_whitespace_def)
  have 3: "get_crop_prices cfg e (rq\<lparr>q_state := [CHR 0x09, CHR 0x0A, CHR 0x0D, CHR 0x20]\<rparr>) =
     (Inl (ValueError ''State parameter is required and cannot be empty''), [])"
    by (rule blank_state_result) (simp add: python_whitespace_def)
  have 4: "get_crop_prices cfg e (rq\<lparr>q_state := [CHR 0xA0]\<rparr>) =
     (Inl (ValueError ''State parameter is required and cannot be empty''), [])"
    by (rule blank_state_result) (simp add: python_whitespace_def)
  have 5: "get_crop_prices cfg e (rq\<lparr>q_state := [CHR 0x85, CHR 0x1F]\<rparr>) =
     (Inl (ValueError ''State parameter is required and cannot be empty''), [])"
    by (rule blank_state_result) (simp add: python_whitespace_def)
  have 6: "\<nexists>m. fst (get_crop_prices cfg e (rq\<lparr>q_state := '' Delhi ''\<rparr>)) = Inl (ValueError m)"
    unfolding general by (simp add: python_whitespace_def)
  have 7: "\<nexists>m. fst (get_crop_prices cfg e (rq\<lparr>q_state := ''_''\<rparr>)) = Inl (ValueError m)"
    unfolding general by (simp add: python_whitespace_def)
  from general [of rq] blank_state_result [of rq cfg e] other_state_result [of rq cfg e]
    1 2 3 4 5 6 7
  show ?thesis
    by blast
qed

theorem blank_state_raises_ValueError_witness:
  "set (q_state blank_request) \<subseteq> set python_whitespace \<and>
   get_crop_prices default_config down_env blank_request =
     (Inl (ValueError ''State parameter is required and cannot be empty''), []) \<and>
   set (q_state nbsp_request) \<subseteq> set python_whitespace \<and>
   get_crop_prices default_config down_env nbsp_request =
     (Inl (ValueError ''State parameter is required and cannot be empty''), []) \<and>
   \<not> set (q_state delhi_request) \<subseteq> set python_whitespace \<and>
   ((\<exists>r. fst (get_crop_prices default_config down_env delhi_request) = Inr r) \<or>
    (\<exists>m. fst (get_crop_prices default_config down_env delhi_request) = Inl (CropPriceError m)))"
proof -
  have b: "set (q_state blank_request) \<subseteq> set python_whitespace"
    by (simp add: blank_request_def python_whitespace_def)
  have n: "set (q_state nbsp_request) \<subseteq> set python_whitespace"
    by (simp add: nbsp_request_def python_whitespace_def)
  have d: "\<not> set (q_state delhi_request) \<subseteq> set python_whitespace"
    by (simp add: delhi_request_def python_whitespace_def)
  from blank_state_raises_ValueError [of default_config down_env blank_request] b
  have 1: "get_crop_prices default_config down_env blank_request =
     (Inl (ValueError ''State parameter is required and cannot be empty''), [])"
    by blast
  from blank_state_raises_ValueError [of default_config down_env nbsp_request] n
  have 2: "get_crop_prices default_config down_env nbsp_request =
     (Inl (ValueError ''State parameter is required and cannot be empty''), [])"
    by blast
  from blank_state_raises_ValueError [of default_config down_env delhi_request] d
  have 3: "(\<exists>r. fst (get_crop_prices default_config down_env delhi_request) = Inr r) \<or>
    (\<exists>m. fst (get_crop_prices default_config down_env delhi_request) = Inl (CropPriceError m))"
    by blast
  from b n d 1 2 3 show ?thesis
    by blast
qed

section \<open>The data source name\<close>

lemma select_source_cong: "lower ds = lower ds' \<Longrightarrow> select_source ds = select_source ds'"
  by (simp add: select_source_def)

lemma retry_primary_cong:
  assumes "lower ds = lower ds'" and "select_source ds = Some p"
  shows "retry_primary cfg e ds as ls = retry_primary cfg e ds' as ls"
proof (induction as arbitrary: ls)
  case Nil
  show ?case by simp
next
  case (Cons a as)
  from assms have "select_source ds' = Some p"
    by (simp add: select_source_cong [of ds ds'])
  with assms(2) Cons.IH show ?case
    by (simp add: retry_primary.simps(2) split: prod.splits outcome.splits)
qed

lemma failover_cong: "lower ds = lower ds' \<Longrightarrow> failover e ds ls = failover e ds' ls"
  by (simp only: failover_def)

lemma live_path_cong:
  assumes "lower ds = lower ds'" and "select_source ds = Some p"
  shows "live_path cfg e st distr crop pdate ds um = live_path cfg e st distr crop pdate ds' um"
  unfolding live_path_def retry_primary_cong [OF assms] failover_cong [OF assms(1)] ..

lemma get_crop_prices_cong:
  assumes "lower ds = lower ds'" and "select_source ds = Some p"
  shows "get_crop_prices cfg e (rq\<lparr>data_source := ds\<rparr>) = get_crop_prices cfg e (rq\<lparr>data_source := ds'\<rparr>)"
  by (simp add: get_crop_prices_def Let_def live_path_cong [OF assms])

lemma live_path_unknown:
  assumes "select_source ds = None" and "0 < MAX_RETRIES cfg"
  shows "live_path cfg e st distr crop pdate ds um =
     (Inl (CropPriceError (''Unexpected error fetching prices: Unknown data source: '' @ ds)), [])"
proof -
  from assms(2) have "[0..<MAX_RETRIES cfg] = 0 # [Suc 0..<MAX_RETRIES cfg]"
    by (simp add: upt_conv_Cons)
  then have "retry_primary cfg e ds [0..<MAX_RETRIES cfg] initial_state =
     (Some (CropPriceError (''Unexpected error fetching prices: Unknown data source: '' @ ds)),
      initial_state)"
    using assms(1) by (simp add: retry_step_unknown)
  then show ?thesis
    by (simp add: live_path_abort initial_state_def)
qed

text \<open>
  Claim C10. The data source is compared case-insensitively: two spellings that agree up
  to case select the same adapter and, when that adapter is one of the two, give the same
  result, so \<open>AGMARKNET\<close> and \<open>Enam\<close> behave as \<open>agmarknet\<close> and \<open>enam\<close>. For any other
  name a live call (with at least one attempt configured) ends in a \<open>CropPriceError\<close>
  wrapping the unknown-source error, with an empty trace: no request, no sleep, no
  fallback source, no mock data.
\<close>

theorem data_source_case_insensitive_unknown_aborts:
  "(lower ds = lower ds' \<and> select_source ds \<noteq> None \<longrightarrow>
      get_crop_prices cfg e (rq\<lparr>data_source := ds\<rparr>)
        = get_crop_prices cfg e (rq\<lparr>data_source := ds'\<rparr>)) \<and>
   select_source ''AGMARKNET'' = select_source ''agmarknet'' \<and>
   select_source ''agmarknet'' = Some Agmarknet \<and>
   select_source ''Enam'' = select_source ''enam'' \<and>
   select_source ''enam'' = Some Enam \<and>
   (live_mode cfg rq \<and> 0 < MAX_RETRIES cfg \<and>
    lower (data_source rq) \<noteq> ''agmarknet'' \<and> lower (data_source rq) \<noteq> ''enam'' \<longrightarrow>
      get_crop_prices cfg e rq =
        (Inl (CropPriceError (''Unexpected error fetching prices: Unknown data source: ''
                @ data_source rq)), []))"
proof (intro conjI impI)
  assume "lower ds = lower ds' \<and> select_source ds \<noteq> None"
  then show "get_crop_prices cfg e (rq\<lparr>data_source := ds\<rparr>)
        = get_crop_prices cfg e (rq\<lparr>data_source := ds'\<rparr>)"
    using get_crop_prices_cong [of ds ds'] by auto
next
  show "select_source ''AGMARKNET'' = select_source ''agmarknet''"
    by code_simp
  show "select_source ''agmarknet'' = Some Agmarknet"
    by code_simp
  show "select_source ''Enam'' = select_source ''enam''"
    by code_simp
  show "select_source ''enam'' = Some Enam"
    by code_simp
next
  assume h: "live_mode cfg rq \<and> 0 < MAX_RETRIES cfg \<and>
    lower (data_source rq) \<noteq> ''agmarknet'' \<and> lower (data_source rq) \<noteq> ''enam''"
  then have "select_source (data_source rq) = None"
    by (simp add: select_source_def)
  with h show "get_crop_prices cfg e rq =
        (Inl (CropPriceError (''Unexpected error fetching prices: Unknown data source: ''
                @ data_source rq)), [])"
    by (simp add: get_crop_prices_live live_path_unknown)
qed

theorem data_source_case_insensitive_unknown_aborts_witness:
  "lower ''AGMARKNET'' = lower ''agmarknet'' \<and> select_source ''AGMARKNET'' \<noteq> None \<and>
   get_crop_prices default_config down_env (delhi_request\<lparr>data_source := ''AGMARKNET''\<rparr>)
     = get_crop_prices default_config down_env (delhi_request\<lparr>data_source := ''agmarknet''\<rparr>) \<and>
   live_mode default_config unknown_source_request \<and> 0 < MAX_RETRIES default_config \<and>
   lower (data_source unknown_source_request) \<noteq> ''agmarknet'' \<and>
   lower (data_source unknown_source_request) \<noteq> ''enam'' \<and>
   get_crop_prices default_config down_env unknown_source_request =
     (Inl (CropPriceError ''Unexpected error fetching prices: Unknown data source: foo''), [])"
proof -
  have a: "lower ''AGMARKNET'' = lower ''agmarknet'' \<and> select_source ''AGMARKNET'' \<noteq> None"
    by code_simp
  have u: "live_mode default_config unknown_source_request \<and> 0 < MAX_RETRIES default_config \<and>
    lower (data_source unknown_source_request) \<noteq> ''agmarknet'' \<and>
    lower (data_source unknown_source_request) \<noteq> ''enam''"
    by code_simp
  from data_source_case_insensitive_unknown_aborts
         [of "''AGMARKNET''" "''agmarknet''" default_config down_env delhi_request] a
  have 1: "get_crop_prices default_config down_env (delhi_request\<lparr>data_source := ''AGMARKNET''\<rparr>)
     = get_crop_prices default_config down_env (delhi_request\<lparr>data_source := ''agmarknet''\<rparr>)"
    by blast
  from data_source_case_insensitive_unknown_aborts
         [of _ _ default_config down_env unknown_source_request] u
  have "get_crop_prices default_config down_env unknown_source_request =
     (Inl (CropPriceError (''Unexpected error fetching prices: Unknown data source: ''
             @ data_source unknown_source_request)), [])"
    by blast
  then have 2: "get_crop_prices default_config down_env unknown_source_request =
     (Inl (CropPriceError ''Unexpected error fetching prices: Unknown data source: foo''), [])"
    by (simp add: unknown_source_request_def)
  from a u 1 2 show ?thesis
    by blast
qed

section \<open>The retry loop\<close>

lemma sleeps_append: "sleeps (xs @ ys) = sleeps xs @ sleeps ys"
  by (induction xs rule: sleeps.induct) auto

lemma sleeps_none: "\<forall>ev \<in> set es. \<forall>s. ev \<noteq> Sleep s \<Longrightarrow> sleeps es = []"
  by (induction es rule: sleeps.induct) auto

lemma schedule_count:
  "count_list (concat (map (\<lambda>a. if a + 1 < n then [Fetch p, Sleep (d * (a + 1))] else [Fetch p]) as))
     (Fetch p) = length as"
  by (induction as) auto

lemma schedule_sleeps:
  "sleeps (concat (map (\<lambda>a. if a + 1 < n then [Fetch p, Sleep (d * (a + 1))] else [Fetch p]) as))
     = map (\<lambda>a. d * (a + 1)) (filter (\<lambda>a. a + 1 < n) as)"
  by (induction as) (auto simp: sleeps_append)

lemma filter_upt_pred: "filter (\<lambda>a. a + 1 < n) [0..<n] = [0..<n - 1]"
proof (cases n)
  case 0
  then show ?thesis by simp
next
  case (Suc m)
  have "filter (\<lambda>a. a < m) [0..<m] = [0..<m]"
    by (rule filter_True) simp
  with Suc show ?thesis
    by simp
qed

lemma map_shift_upt: "map (\<lambda>a. d * (a + 1)) [0..<n - 1] = map (\<lambda>k. d * k) [1..<n]"
proof (cases n)
  case 0
  then show ?thesis by simp
next
  case (Suc m)
  have "[Suc 0..<Suc m] = map Suc [0..<m]"
    by (simp only: map_Suc_upt)
  then have "map (\<lambda>k. d * k) [1..<n] = map (\<lambda>k. d * k) (map Suc [0..<m])"
    using Suc by (simp only: One_nat_def)
  also have "\<dots> = map (\<lambda>a. d * (a + 1)) [0..<m]"
    by (simp add: comp_def)
  finally show ?thesis
    using Suc by simp
qed

lemma backoff_schedule_count: "count_list (backoff_schedule p d n) (Fetch p) = n"
  unfolding backoff_schedule_def schedule_count by simp

lemma backoff_schedule_sleeps: "sleeps (backoff_schedule p d n) = map (\<lambda>k. d * k) [1..<n]"
  by (simp only: backoff_schedule_def schedule_sleeps filter_upt_pred map_shift_upt)

lemma sum_list_backoff: "sum_list (map (\<lambda>k. d * k) [1..<n]) = d * (\<Sum>k = 1..<n. k)"
  by (simp add: interv_sum_list_conv_sum_set_nat sum_distrib_left)


lemma retry_all_raise:
  assumes "select_source ds = Some p"
    and "\<forall>k. \<exists>err. adapter e p k = Raises err \<and> retryable err"
  shows "\<exists>ls'. retry_primary cfg e ds as ls = (None, ls') \<and>
           trace ls' = trace ls @ concat (map (\<lambda>a. if a + 1 < MAX_RETRIES cfg
                          then [Fetch p, Sleep (RETRY_DELAY cfg * (a + 1))] else [Fetch p]) as) \<and>
           prices ls' = prices ls \<and> (as \<noteq> [] \<longrightarrow> last_error ls' \<noteq> None)"
proof (induction as arbitrary: ls)
  case Nil
  show ?case by simp
next
  case (Cons a as)
  from assms(2) obtain err where
    err: "adapter e p (count_list (trace ls) (Fetch p)) = Raises err" "retryable err"
    by blast
  let ?sl = "if a + 1 < MAX_RETRIES cfg then [Sleep (RETRY_DELAY cfg * (a + 1))] else []"
  let ?ls = "ls\<lparr>last_error := Some err, trace := trace ls @ Fetch p # ?sl\<rparr>"
  have step: "retry_primary cfg e ds (a # as) ls = retry_primary cfg e ds as ?ls"
    using assms(1) err by (rule retry_step_raises)
  obtain ls' where ls':
    "retry_primary cfg e ds as ?ls = (None, ls')"
    "trace ls' = trace ?ls @ concat (map (\<lambda>a. if a + 1 < MAX_RETRIES cfg
                          then [Fetch p, Sleep (RETRY_DELAY cfg * (a + 1))] else [Fetch p]) as)"
    "prices ls' = prices ?ls" "as \<noteq> [] \<longrightarrow> last_error ls' \<noteq> None"
    using Cons.IH by blast
  have le: "last_error ls' \<noteq> None"
  proof (cases as)
    case Nil
    with ls'(1) show ?thesis by auto
  next
    case (Cons b bs)
    with ls'(4) show ?thesis by simp
  qed
  from step ls' le show ?case
    by (intro exI [of _ ls']) auto
qed

lemma fallback_source_other:
  "select_source ds = Some p \<Longrightarrow> (if lower ds = ''agmarknet'' then Enam else Agmarknet) = other p"
  by (auto simp: select_source_def split: if_splits)

lemma failover_trace:
  "select_source ds = Some p \<Longrightarrow>
   trace (failover e ds ls) =
     trace ls @ (if prices ls = [] \<and> last_error ls \<noteq> None then [Fetch (other p)] else [])"
  by (auto simp add: failover_def Let_def fallback_source_other fetch_def split: outcome.splits)

lemma failover_prices_kept: "prices ls \<noteq> [] \<Longrightarrow> failover e ds ls = ls"
  by (simp add: failover_def)

lemma failover_skipped: "last_error ls = None \<Longrightarrow> failover e ds ls = ls"
  by (simp add: failover_def)

lemma failover_raises:
  "select_source ds = Some p \<Longrightarrow> prices ls = [] \<Longrightarrow>
   adapter e (other p) (count_list (trace ls) (Fetch (other p))) = Raises err \<Longrightarrow>
   prices (failover e ds ls) = []"
  by (simp add: failover_def fallback_source_other fetch_def)

lemma mock_fallback_trace:
  "trace (mock_fallback e um st distr crop pdate ls) =
     trace ls @ (if prices ls = [] \<and> um then [MockCall] else [])"
  by (simp add: mock_fallback_def split: sum.splits)

lemma mock_fallback_prices_kept:
  "prices ls \<noteq> [] \<Longrightarrow> mock_fallback e um st distr crop pdate ls = ls"
  by (simp add: mock_fallback_def)

lemma other_neq: "other p \<noteq> p"
  by (cases p) auto

lemma final_trace:
  assumes "select_source ds = Some p"
    and "retry_primary cfg e ds [0..<MAX_RETRIES cfg] initial_state = (None, ls)"
  shows "snd (live_path cfg e st distr crop pdate ds um) =
     trace ls @ (if prices ls = [] \<and> last_error ls \<noteq> None then [Fetch (other p)] else [])
              @ (if prices (failover e ds ls) = [] \<and> um then [MockCall] else [])"
  by (simp add: live_path_done [OF assms(2) refl refl] mock_fallback_trace
        failover_trace [OF assms(1)])

lemma retry_all_raise_live:
  assumes "select_source ds = Some p"
    and "\<forall>k. \<exists>err. adapter e p k = Raises err \<and> retryable err"
  shows "\<exists>rest. snd (live_path cfg e st distr crop pdate ds um) =
            backoff_schedule p (RETRY_DELAY cfg) (MAX_RETRIES cfg) @ rest \<and>
          (\<forall>ev \<in> set rest. ev = Fetch (other p) \<or> ev = MockCall)"
proof -
  obtain ls where ls:
    "retry_primary cfg e ds [0..<MAX_RETRIES cfg] initial_state = (None, ls)"
    "trace ls = trace initial_state @ backoff_schedule p (RETRY_DELAY cfg) (MAX_RETRIES cfg)"
    unfolding backoff_schedule_def using retry_all_raise [OF assms] by blast
  show ?thesis
    unfolding final_trace [OF assms(1) ls(1)] ls(2)
    by (intro exI [of _ "(if prices ls = [] \<and> last_error ls \<noteq> None then [Fetch (other p)] else [])
              @ (if prices (failover e ds ls) = [] \<and> um then [MockCall] else [])"])
       (auto simp add: initial_state_def)
qed

lemma schedule_then_rest:
  assumes "tr = backoff_schedule p d n @ rest"
    and "\<forall>ev \<in> set rest. ev = Fetch (other p) \<or> ev = MockCall"
  shows "count_list tr (Fetch p) = n" and "sleeps tr = map (\<lambda>k. d * k) [1..<n]"
proof -
  from assms(2) have "Fetch p \<notin> set rest"
    using other_neq [of p] by auto
  then show "count_list tr (Fetch p) = n"
    by (simp add: assms(1) backoff_schedule_count)
  from assms(2) have "\<forall>ev \<in> set rest. \<forall>s. ev \<noteq> Sleep s"
    by auto
  then show "sleeps tr = map (\<lambda>k. d * k) [1..<n]"
    by (simp add: assms(1) sleeps_append sleeps_none backoff_schedule_sleeps)
qed

lemma retry_success:
  assumes "select_source ds = Some p"
    and "adapter e p k = Returns ps" and "ps \<noteq> []" and "k < n"
    and "\<forall>j<k. adapter e p j = Returns [] \<or> (\<exists>err. adapter e p j = Raises err \<and> retryable err)"
  shows "count_list (trace ls) (Fetch p) = a \<Longrightarrow> a \<le> k \<Longrightarrow>
         \<exists>ls'. retry_primary cfg e ds [a..<n] ls = (None, ls') \<and> prices ls' = ps \<and>
               count_list (trace ls') (Fetch p) = k + 1 \<and> (\<exists>pre. trace ls' = pre @ [Fetch p])"
proof (induction "k - a" arbitrary: a ls)
  case 0
  then have ak: "a = k" by simp
  with assms(4) have upt: "[a..<n] = a # [Suc a..<n]"
    by (simp add: upt_conv_Cons)
  from 0 ak assms(2) have "adapter e p (count_list (trace ls) (Fetch p)) = Returns ps"
    by simp
  from retry_step_nonempty [OF assms(1) this assms(3)] upt 0 ak show ?case
    by (intro exI [of _ "ls\<lparr>prices := ps, trace := trace ls @ [Fetch p]\<rparr>"]) simp
next
  case (Suc m)
  then have lt: "a < k" by simp
  with assms(4) have upt: "[a..<n] = a # [Suc a..<n]"
    by (simp add: upt_conv_Cons)
  from lt assms(5) Suc.prems(1) consider
    (empty) "adapter e p (count_list (trace ls) (Fetch p)) = Returns []"
    | (raises) err where "adapter e p (count_list (trace ls) (Fetch p)) = Raises err" "retryable err"
    by blast
  then show ?case
  proof cases
    case empty
    let ?ls = "ls\<lparr>prices := [], trace := trace ls @ [Fetch p]\<rparr>"
    have "count_list (trace ?ls) (Fetch p) = Suc a"
      using Suc.prems(1) by simp
    moreover have "m = k - Suc a" "Suc a \<le> k"
      using Suc.hyps(2) lt by simp_all
    ultimately obtain ls' where
      "retry_primary cfg e ds [Suc a..<n] ?ls = (None, ls')" "prices ls' = ps"
      "count_list (trace ls') (Fetch p) = k + 1" "\<exists>pre. trace ls' = pre @ [Fetch p]"
      using Suc.hyps(1) [of "Suc a" ?ls] by blast
    then show ?thesis
      using upt retry_step_empty [OF assms(1) empty, of cfg a "[Suc a..<n]"] by auto
  next
    case raises
    let ?sl = "if a + 1 < MAX_RETRIES cfg then [Sleep (RETRY_DELAY cfg * (a + 1))] else []"
    let ?ls = "ls\<lparr>last_error := Some err, trace := trace ls @ Fetch p # ?sl\<rparr>"
    have "count_list (trace ?ls) (Fetch p) = Suc a"
      using Suc.prems(1) by simp
    moreover have "m = k - Suc a" "Suc a \<le> k"
      using Suc.hyps(2) lt by simp_all
    ultimately obtain ls' where
      "retry_primary cfg e ds [Suc a..<n] ?ls = (None, ls')" "prices ls' = ps"
      "count_list (trace ls') (Fetch p) = k + 1" "\<exists>pre. trace ls' = pre @ [Fetch p]"
      using Suc.hyps(1) [of "Suc a" ?ls] by blast
    then show ?thesis
      using upt retry_step_raises [OF assms(1) raises, of cfg a "[Suc a..<n]"] by auto
  qed
qed

text \<open>
  Claim C1. In a live call whose data source names one of the two adapters: when that
  adapter raises \<open>NetworkError\<close> or \<open>DataSourceError\<close> on every request, the trace begins
  with the backoff schedule (\<open>MAX_RETRIES\<close> requests, a sleep of \<open>RETRY_DELAY\<close> times the
  attempt number after each but the last) and continues only with the fallback source
  and the mock provider, so there are exactly \<open>MAX_RETRIES\<close> attempts, the sleeps are
  \<open>RETRY_DELAY * 1, \<dots>, RETRY_DELAY * (MAX_RETRIES - 1)\<close> and their total is
  \<open>RETRY_DELAY * (1 + \<dots> + (MAX_RETRIES - 1))\<close>. When attempt \<open>k + 1\<close> is the first to
  return a non-empty list, it is the last effect of the call: no further attempt, no sleep.
\<close>

theorem retry_linear_backoff:
  assumes "live_mode cfg rq" and "select_source (data_source rq) = Some p"
  shows "((\<forall>k. \<exists>err. adapter e p k = Raises err \<and> retryable err) \<longrightarrow>
            (\<exists>rest. snd (get_crop_prices cfg e rq) =
                      backoff_schedule p (RETRY_DELAY cfg) (MAX_RETRIES cfg) @ rest \<and>
                    (\<forall>ev \<in> set rest. ev = Fetch (other p) \<or> ev = MockCall)) \<and>
            count_list (snd (get_crop_prices cfg e rq)) (Fetch p) = MAX_RETRIES cfg \<and>
            sleeps (snd (get_crop_prices cfg e rq)) =
              map (\<lambda>k. RETRY_DELAY cfg * k) [1..<MAX_RETRIES cfg] \<and>
            sum_list (sleeps (snd (get_crop_prices cfg e rq))) =
              RETRY_DELAY cfg * (\<Sum>k = 1..<MAX_RETRIES cfg. k)) \<and>
         (\<forall>k ps. k < MAX_RETRIES cfg \<and> adapter e p k = Returns ps \<and> ps \<noteq> [] \<and>
                 (\<forall>j<k. adapter e p j = Returns [] \<or>
                         (\<exists>err. adapter e p j = Raises err \<and> retryable err)) \<longrightarrow>
            count_list (snd (get_crop_prices cfg e rq)) (Fetch p) = k + 1 \<and>
            (\<exists>pre. snd (get_crop_prices cfg e rq) = pre @ [Fetch p]))"
proof (intro conjI impI allI)
  let ?tr = "snd (get_crop_prices cfg e rq)"
  assume all: "\<forall>k. \<exists>err. adapter e p k = Raises err \<and> retryable err"
  from retry_all_raise_live [OF assms(2) all] obtain rest where
    rest: "?tr = backoff_schedule p (RETRY_DELAY cfg) (MAX_RETRIES cfg) @ rest"
          "\<forall>ev \<in> set rest. ev = Fetch (other p) \<or> ev = MockCall"
    unfolding get_crop_prices_live [OF assms(1)] by blast
  then show "\<exists>rest. ?tr = backoff_schedule p (RETRY_DELAY cfg) (MAX_RETRIES cfg) @ rest \<and>
                    (\<forall>ev \<in> set rest. ev = Fetch (other p) \<or> ev = MockCall)"
    by blast
  from schedule_then_rest [OF rest]
  show "count_list ?tr (Fetch p) = MAX_RETRIES cfg"
    and sl: "sleeps ?tr = map (\<lambda>k. RETRY_DELAY cfg * k) [1..<MAX_RETRIES cfg]"
    by simp_all
  show "sum_list (sleeps ?tr) = RETRY_DELAY cfg * (\<Sum>k = 1..<MAX_RETRIES cfg. k)"
    unfolding sl by (rule sum_list_backoff)
next
  let ?tr = "snd (get_crop_prices cfg e rq)"
  fix k ps
  assume h: "k < MAX_RETRIES cfg \<and> adapter e p k = Returns ps \<and> ps \<noteq> [] \<and>
             (\<forall>j<k. adapter e p j = Returns [] \<or>
                     (\<exists>err. adapter e p j = Raises err \<and> retryable err))"
  have "count_list (trace initial_state) (Fetch p) = 0"
    by (simp add: initial_state_def)
  from retry_success [of "data_source rq" p e k ps "MAX_RETRIES cfg" initial_state 0 cfg,
         OF assms(2) _ _ _ _ this] h
  obtain ls where ls:
    "retry_primary cfg e (data_source rq) [0..<MAX_RETRIES cfg] initial_state = (None, ls)"
    "prices ls = ps" "count_list (trace ls) (Fetch p) = k + 1" "\<exists>pre. trace ls = pre @ [Fetch p]"
    by blast
  from h ls(2) have ne: "prices ls \<noteq> []"
    by simp
  have tr: "?tr = trace ls"
    unfolding get_crop_prices_live [OF assms(1)] final_trace [OF assms(2) ls(1)]
    using ne by (simp add: failover_prices_kept)
  from ls(3) show "count_list ?tr (Fetch p) = k + 1"
    by (simp only: tr)
  from ls(4) show "\<exists>pre. ?tr = pre @ [Fetch p]"
    by (simp only: tr)
qed


lemma stub_adapter_raises: "\<exists>err. stub_adapter http s k = Raises err \<and> retryable err"
  by (cases s; cases "http s k")
     (auto simp: stub_adapter_def fetch_agmarknet_prices_def fetch_enam_prices_def)

lemma down_env_raises: "\<exists>err. adapter down_env s k = Raises err \<and> retryable err"
  by (simp add: down_env_def stub_adapter_raises)

theorem retry_linear_backoff_witness:
  "live_mode default_config delhi_request \<and>
   select_source (data_source delhi_request) = Some Agmarknet \<and>
   (\<forall>k. \<exists>err. adapter down_env Agmarknet k = Raises err \<and> retryable err) \<and>
   (\<exists>rest. snd (get_crop_prices default_config down_env delhi_request) =
      [Fetch Agmarknet, Sleep 2, Fetch Agmarknet, Sleep 4, Fetch Agmarknet] @ rest) \<and>
   count_list (snd (get_crop_prices default_config down_env delhi_request)) (Fetch Agmarknet) = 3 \<and>
   sleeps (snd (get_crop_prices default_config down_env delhi_request)) = [2, 4] \<and>
   sum_list (sleeps (snd (get_crop_prices default_config down_env delhi_request))) = 2 * (1 + 2) \<and>
   adapter recovering_env Agmarknet 0 = Raises (NetworkError ''timeout'') \<and>
   adapter recovering_env Agmarknet 1 = Returns [wheat] \<and>
   count_list (snd (get_crop_prices default_config recovering_env delhi_request)) (Fetch Agmarknet)
     = 2 \<and>
   snd (get_crop_prices default_config recovering_env delhi_request) =
     [Fetch Agmarknet, Sleep 2, Fetch Agmarknet]"
proof -
  have live: "live_mode default_config delhi_request"
    by code_simp
  have src: "select_source (data_source delhi_request) = Some Agmarknet"
    by code_simp
  have down: "\<forall>k. \<exists>err. adapter down_env Agmarknet k = Raises err \<and> retryable err"
    by (simp add: down_env_raises)
  have rec1: "adapter recovering_env Agmarknet 1 = Returns [wheat]"
    by (simp add: recovering_env_def)
  have rec0: "\<forall>j<1. adapter recovering_env Agmarknet j = Returns [] \<or>
           (\<exists>err. adapter recovering_env Agmarknet j = Raises err \<and> retryable err)"
    by (simp add: recovering_env_def)
  have n: "MAX_RETRIES default_config = 3" and d: "RETRY_DELAY default_config = 2"
    by (simp_all add: default_config_def)
  have m: "map (\<lambda>k. 2 * k) [1..<3] = [2, 4::nat]"
    by code_simp
  have su: "(\<Sum>k = 1..<3. k) = (1 + 2 :: nat)"
    by (simp add: numeral_3_eq_3 atLeastLessThanSuc)
  have sch: "backoff_schedule Agmarknet 2 3 =
               [Fetch Agmarknet, Sleep 2, Fetch Agmarknet, Sleep 4, Fetch Agmarknet]"
    by code_simp
  have tr2: "snd (get_crop_prices default_config recovering_env delhi_request) =
     [Fetch Agmarknet, Sleep 2, Fetch Agmarknet]"
    by code_simp
  note t1 = retry_linear_backoff [OF live src, of down_env, THEN conjunct1, THEN mp, OF down]
  note t2 = retry_linear_backoff [OF live src, of recovering_env, THEN conjunct2,
                THEN spec [of _ 1], THEN spec [of _ "[wheat]"], THEN mp]
  from t1 have
    "\<exists>rest. snd (get_crop_prices default_config down_env delhi_request) =
       [Fetch Agmarknet, Sleep 2, Fetch Agmarknet, Sleep 4, Fetch Agmarknet] @ rest"
    unfolding n d sch by blast
  moreover from t1 have
    "count_list (snd (get_crop_prices default_config down_env delhi_request)) (Fetch Agmarknet) = 3"
    "sleeps (snd (get_crop_prices default_config down_env delhi_request)) = [2, 4]"
    "sum_list (sleeps (snd (get_crop_prices default_config down_env delhi_request))) = 2 * (1 + 2)"
    unfolding n d m su by simp_all
  moreover from t2 rec1 rec0 have
    "count_list (snd (get_crop_prices default_config recovering_env delhi_request)) (Fetch Agmarknet)
       = 2"
    unfolding n by simp
  moreover have "adapter recovering_env Agmarknet 0 = Raises (NetworkError ''timeout'')"
    by (simp add: recovering_env_def)
  ultimately show ?thesis
    using live src down rec1 tr2 by blast
qed

lemma retry_all_empty:
  assumes "select_source ds = Some p" and "\<forall>j<n. adapter e p j = Returns []"
  shows "count_list (trace ls) (Fetch p) = a \<Longrightarrow>
         \<exists>ls'. retry_primary cfg e ds [a..<n] ls = (None, ls') \<and> last_error ls' = last_error ls"
proof (induction "n - a" arbitrary: a ls)
  case 0
  then show ?case by simp
next
  case (Suc m)
  then have lt: "a < n" by simp
  then have upt: "[a..<n] = a # [Suc a..<n]"
    by (simp add: upt_conv_Cons)
  from lt assms(2) Suc.prems have emp: "adapter e p (count_list (trace ls) (Fetch p)) = Returns []"
    by simp
  let ?ls = "ls\<lparr>prices := [], trace := trace ls @ [Fetch p]\<rparr>"
  have "count_list (trace ?ls) (Fetch p) = Suc a"
    using Suc.prems by simp
  moreover have "m = n - Suc a"
    using Suc.hyps(2) by simp
  ultimately obtain ls' where
    "retry_primary cfg e ds [Suc a..<n] ?ls = (None, ls')" "last_error ls' = last_error ?ls"
    using Suc.hyps(1) [of "Suc a" ?ls] by blast
  then show ?case
    using upt retry_step_empty [OF assms(1) emp, of cfg a "[Suc a..<n]"] by auto
qed


lemma retry_trace_only_primary:
  assumes "select_source ds = Some p"
    and "retry_primary cfg e ds as initial_state = (ab, ls)"
  shows "count_list (trace ls) (Fetch (other p)) = 0" and "count_list (trace ls) MockCall = 0"
proof -
  from retry_primary_general [OF assms(1), of cfg e as initial_state] assms(2)
  obtain ext where ext: "trace ls = trace initial_state @ ext"
    "\<forall>ev \<in> set ext. ev = Fetch p \<or> (\<exists>s. ev = Sleep s)"
    by auto
  then have "Fetch (other p) \<notin> set (trace ls)" "MockCall \<notin> set (trace ls)"
    using other_neq [of p] by (auto simp: initial_state_def)
  then show "count_list (trace ls) (Fetch (other p)) = 0" "count_list (trace ls) MockCall = 0"
    by simp_all
qed

section \<open>The fallback source\<close>

lemma fallback_request_count:
  assumes "live_mode cfg rq" and "select_source (data_source rq) = Some p"
    and "retry_primary cfg e (data_source rq) [0..<MAX_RETRIES cfg] initial_state = (None, ls)"
  shows "count_list (snd (get_crop_prices cfg e rq)) (Fetch (other p)) =
           (if prices ls = [] \<and> last_error ls \<noteq> None then 1 else 0)"
  unfolding get_crop_prices_live [OF assms(1)] final_trace [OF assms(2,3)]
  using retry_trace_only_primary [OF assms(2,3)] by simp

text \<open>
  Claim C2, as the code has it. In a live call whose retry loop ran to its end (no
  unexpected exception), the other source is requested exactly once if the loop left no
  records and a recorded \<open>last_error\<close>, and not at all otherwise; the call then ends in
  a response whatever the fallback source did, and when the fallback source raised, the
  mock provider is still consulted if \<open>use_mock_fallback\<close> is set. When every attempt at
  the primary returned an empty list, so that no error was recorded, the fallback source
  is skipped.
\<close>

theorem failover_once_iff_error_recorded:
  assumes "live_mode cfg rq" and "select_source (data_source rq) = Some p"
    and "retry_primary cfg e (data_source rq) [0..<MAX_RETRIES cfg] initial_state = (None, ls)"
  shows "count_list (snd (get_crop_prices cfg e rq)) (Fetch (other p)) =
           (if prices ls = [] \<and> last_error ls \<noteq> None then 1 else 0) \<and>
         (\<exists>r. fst (get_crop_prices cfg e rq) = Inr r) \<and>
         (\<forall>err. prices ls = [] \<and> last_error ls \<noteq> None \<and> adapter e (other p) 0 = Raises err \<longrightarrow>
            count_list (snd (get_crop_prices cfg e rq)) MockCall =
              (if use_mock_fallback rq then 1 else 0)) \<and>
         ((\<forall>k<MAX_RETRIES cfg. adapter e p k = Returns []) \<longrightarrow>
            count_list (snd (get_crop_prices cfg e rq)) (Fetch (other p)) = 0)"
proof (intro conjI allI impI)
  let ?tr = "snd (get_crop_prices cfg e rq)"
  note only = retry_trace_only_primary [OF assms(2,3)]
  have tr: "?tr = trace ls
      @ (if prices ls = [] \<and> last_error ls \<noteq> None then [Fetch (other p)] else [])
      @ (if prices (failover e (data_source rq) ls) = [] \<and> use_mock_fallback rq
         then [MockCall] else [])"
    unfolding get_crop_prices_live [OF assms(1)] by (rule final_trace [OF assms(2,3)])
  show c: "count_list ?tr (Fetch (other p)) =
           (if prices ls = [] \<and> last_error ls \<noteq> None then 1 else 0)"
    by (rule fallback_request_count [OF assms])
  show "\<exists>r. fst (get_crop_prices cfg e rq) = Inr r"
    unfolding get_crop_prices_live [OF assms(1)]
    by (simp add: live_path_done [OF assms(3) refl refl])
  {
    fix err
    assume h: "prices ls = [] \<and> last_error ls \<noteq> None \<and> adapter e (other p) 0 = Raises err"
    then have "prices (failover e (data_source rq) ls) = []"
      using failover_raises [OF assms(2), of ls e err] only by simp
    then show "count_list ?tr MockCall = (if use_mock_fallback rq then 1 else 0)"
      unfolding tr using only by simp
  }
  {
    assume "\<forall>k<MAX_RETRIES cfg. adapter e p k = Returns []"
    moreover have "count_list (trace initial_state) (Fetch p) = 0"
      by (simp add: initial_state_def)
    ultimately obtain ls' where
      "retry_primary cfg e (data_source rq) [0..<MAX_RETRIES cfg] initial_state = (None, ls')"
      "last_error ls' = last_error initial_state"
      using retry_all_empty [OF assms(2), of "MAX_RETRIES cfg" e initial_state 0 cfg] by blast
    with assms(3) have "last_error ls = None"
      by (simp add: initial_state_def)
    with c show "count_list ?tr (Fetch (other p)) = 0"
      by simp
  }
qed


text \<open>
  The claim as the specification words it fails: the third and final attempt returns an
  empty list without raising, and the fallback source is requested all the same, because
  the error of the first attempt is still recorded.
\<close>

theorem failover_despite_empty_final_attempt:
  "MAX_RETRIES default_config = 3 \<and>
   adapter flaky_env Agmarknet 2 = Returns [] \<and>
   retry_primary default_config flaky_env (data_source delhi_request)
     [0..<MAX_RETRIES default_config] initial_state = (None, flaky_state) \<and>
   count_list (snd (get_crop_prices default_config flaky_env delhi_request)) (Fetch Enam) = 1"
proof -
  have live: "live_mode default_config delhi_request"
    by code_simp
  have src: "select_source (data_source delhi_request) = Some Agmarknet"
    by code_simp
  have loop: "retry_primary default_config flaky_env (data_source delhi_request)
     [0..<MAX_RETRIES default_config] initial_state = (None, flaky_state)"
    by code_simp
  have "count_list (snd (get_crop_prices default_config flaky_env delhi_request)) (Fetch Enam) = 1"
    using fallback_request_count [OF live src loop] by (simp add: flaky_state_def)
  moreover have "MAX_RETRIES default_config = 3"
    by (simp add: default_config_def)
  moreover have "adapter flaky_env Agmarknet 2 = Returns []"
    by (simp add: flaky_env_def)
  ultimately show ?thesis
    using loop by blast
qed

theorem failover_once_iff_error_recorded_witness:
  "live_mode default_config delhi_request \<and>
   select_source (data_source delhi_request) = Some Agmarknet \<and>
   retry_primary default_config down_env (data_source delhi_request)
     [0..<MAX_RETRIES default_config] initial_state = (None, down_state) \<and>
   prices down_state = [] \<and> last_error down_state \<noteq> None \<and>
   adapter down_env (other Agmarknet) 0 = Raises (NetworkError ''Failed to fetch e-NAM page: HTTP 503'') \<and>
   count_list (snd (get_crop_prices default_config down_env delhi_request)) (Fetch Enam) = 1 \<and>
   (\<exists>r. fst (get_crop_prices default_config down_env delhi_request) = Inr r) \<and>
   count_list (snd (get_crop_prices default_config down_env delhi_request)) MockCall = 1 \<and>
   retry_primary default_config empty_env (data_source delhi_request)
     [0..<MAX_RETRIES default_config] initial_state = (None, empty_state) \<and>
   last_error empty_state = None \<and>
   count_list (snd (get_crop_prices default_config empty_env delhi_request)) (Fetch Enam) = 0"
proof -
  have live: "live_mode default_config delhi_request"
    by code_simp
  have src: "select_source (data_source delhi_request) = Some Agmarknet"
    by code_simp
  have loop1: "retry_primary default_config down_env (data_source delhi_request)
     [0..<MAX_RETRIES default_config] initial_state = (None, down_state)"
    by code_simp
  have st1: "prices down_state = [] \<and> last_error down_state \<noteq> None"
    by (simp add: down_state_def)
  have um: "use_mock_fallback delhi_request"
    by (simp add: delhi_request_def)
  have enam: "adapter down_env (other Agmarknet) 0 =
                Raises (NetworkError ''Failed to fetch e-NAM page: HTTP 503'')"
    by code_simp
  have loop2: "retry_primary default_config empty_env (data_source delhi_request)
     [0..<MAX_RETRIES default_config] initial_state = (None, empty_state)"
    by code_simp
  have emp: "\<forall>k<MAX_RETRIES default_config. adapter empty_env Agmarknet k = Returns []"
    by (simp add: empty_env_def)
  note t1 = failover_once_iff_error_recorded [OF live src loop1]
  note t2 = failover_once_iff_error_recorded [OF live src loop2]
  from t1 st1 have a: "count_list (snd (get_crop_prices default_config down_env delhi_request))
                         (Fetch Enam) = 1"
    by simp
  from t1 have b: "\<exists>r. fst (get_crop_prices default_config down_env delhi_request) = Inr r"
    by blast
  from t1 st1 enam um
  have c: "count_list (snd (get_crop_prices default_config down_env delhi_request)) MockCall = 1"
    by simp
  from t2 emp
  have d: "count_list (snd (get_crop_prices default_config empty_env delhi_request)) (Fetch Enam) = 0"
    by simp
  have st2: "last_error empty_state = None"
    by (simp add: empty_state_def)
  from live src loop1 st1 enam a b c loop2 st2 d show ?thesis
    by blast
qed

section \<open>The final response\<close>



end
